theory Spec2Isabelle
  imports Complex_Main
begin

section \<open>Conventions of the embedding\<close>

text \<open>
  The theory embeds the control logic of \<^verbatim>\<open>cephalus/q/td.py\<close> (the TD agent) and of
  \<^verbatim>\<open>cephalus/kernel.py\<close> (the state kernel), with the frame of \<^verbatim>\<open>cephalus/frame.py\<close>.

  \<^item> A Python exception is a value of \<open>error\<close>; a method that can raise returns
    \<open>error + result\<close>. An exception ends the run (the error model of the program has no
    recovery), so a failed call carries no state; the one exception to this is
    \<open>train\<close>, whose \<^verbatim>\<open>finally\<close> block is modelled with the frame and the tape it leaves
    behind.
  \<^item> Mutable objects are passed explicitly: a method takes the object and returns the
    updated one.
  \<^item> Python floats and scalar tensors of the TD agent are real numbers: rounding,
    overflow, infinities and NaN are not part of that model. The tensors of the kernel
    have entries of type \<open>fl\<close> (below): \<^verbatim>\<open>float32\<close> numbers with the infinities and NaN,
    whose arithmetic rounds every result.
  \<^item> Collaborators whose code is not part of the files (the action policy, the
    Q-model, the kernel modules, automatic differentiation, the optimizer) are
    parameters of the definitions.
\<close>

datatype error =
  AssertionError | TypeError | AttributeError | ZeroDivisionError | InvalidArgumentError
  | ValueError

section \<open>The TD agent (\<^verbatim>\<open>cephalus/q/td.py\<close>)\<close>

subsection \<open>Data\<close>

text \<open>
  Modelled from the spec: \<^verbatim>\<open>ActionDecision\<close>, whose declaration
  (\<^verbatim>\<open>cephalus.q.action_policies\<close>) is not among the sources. The record has the
  attributes that \<^verbatim>\<open>td.py\<close> reads and writes. The attributes written by the agent start as
  \<^verbatim>\<open>None\<close>; the others are filled in by the action policy when the decision is made.
  A decision object is truthy (the tests \<^verbatim>\<open>if self._previous_decision\<close> are tests for
  \<^verbatim>\<open>None\<close>).
\<close>

record ('s, 'a) ActionDecision =
  state_input :: 's
  decision_step :: int
  selected_action :: 'a
  selected_q_value_prediction :: real
  exploit_q_value_prediction :: real
  exploit_confidence :: real
  reward :: "real option"
  q_value_target :: "real option"
  q_value_target_confidence :: "real option"

text \<open>
  The discount is \<^verbatim>\<open>Union[float, Callable[[float, float], float]]\<close>: a constant, or a
  function of the episode count and the total step count.
\<close>

datatype discount = Constant real | Scheduled "int \<Rightarrow> int \<Rightarrow> real"

record ('s, 'a) TDAgent =
  max_observable_reward :: "real option"
  min_observable_reward :: "real option"
  episodes :: int
  total_steps :: int
  discount :: discount
  stabilize :: bool
  previous_decision :: "('s, 'a) ActionDecision option"
  current_decision :: "('s, 'a) ActionDecision option"

text \<open>
  Modelled from the spec: the action policy together with the Q-model, whose code is
  not among the sources. \<open>policy_choose_action s n\<close> is the
  decision object after \<^verbatim>\<open>ActionDecision(state_input, q_model, step)\<close> and
  \<^verbatim>\<open>action_policy.choose_action(decision)\<close>; \<open>policy_get_loss\<close> is
  \<^verbatim>\<open>action_policy.get_loss\<close>.
\<close>

record ('s, 'a, 'l) action_policy =
  policy_choose_action :: "'s \<Rightarrow> int \<Rightarrow> ('s, 'a) ActionDecision"
  policy_get_loss :: "('s, 'a) ActionDecision \<Rightarrow> 'l"

subsection \<open>Operations\<close>

definition new_TDAgent :: "discount \<Rightarrow> bool \<Rightarrow> ('s, 'a) TDAgent" where
  "new_TDAgent d st =
     \<lparr>max_observable_reward = None, min_observable_reward = None, episodes = 0,
      total_steps = 0, discount = d, stabilize = st,
      previous_decision = None, current_decision = None\<rparr>"

definition get_discount :: "('s, 'a) TDAgent \<Rightarrow> real" where
  "get_discount a =
     (case discount a of
        Scheduled f \<Rightarrow> f (episodes a) (total_steps a)
      | Constant d \<Rightarrow> d)"

text \<open>
  Division of a number by \<^verbatim>\<open>1.0 + discount\<close>. On Python floats a zero divisor raises
  \<^verbatim>\<open>ZeroDivisionError\<close>; on a tensor operand TensorFlow yields an infinity or NaN,
  which is no number of this model either, so both are the error here.
\<close>

definition divide_by :: "real \<Rightarrow> real \<Rightarrow> error + real" where
  "divide_by x y = (if y = 0 then Inl ZeroDivisionError else Inr (x / y))"

definition update_previous_decision :: "('s, 'a) TDAgent \<Rightarrow> error + ('s, 'a) TDAgent" where
  "update_previous_decision a =
     (case previous_decision a of
        None \<Rightarrow> Inr a
      | Some prev \<Rightarrow>
          (case reward prev of
             None \<Rightarrow> Inl AssertionError
           | Some r \<Rightarrow>
               if q_value_target prev \<noteq> None then Inl AssertionError
               else
                 (case current_decision a of
                    Some cur \<Rightarrow>
                      if reward cur \<noteq> None then Inl AssertionError
                      else
                        (let prediction = exploit_q_value_prediction cur;
                             prediction_confidence = exploit_confidence cur;
                             d = get_discount a
                         in if stabilize a then
                              (let prediction =
                                     (case min_observable_reward a of
                                        Some lo \<Rightarrow> max prediction lo
                                      | None \<Rightarrow> prediction);
                                   prediction =
                                     (case max_observable_reward a of
                                        Some hi \<Rightarrow> min prediction hi
                                      | None \<Rightarrow> prediction)
                               in case divide_by (r + d * prediction) (1 + d) of
                                    Inl e \<Rightarrow> Inl e
                                  | Inr previous_q_value \<Rightarrow>
                                      Inr (a\<lparr>previous_decision := Some (prev
                                             \<lparr>q_value_target := Some previous_q_value,
                                              q_value_target_confidence :=
                                                Some prediction_confidence\<rparr>)\<rparr>))
                            else
                              Inr (a\<lparr>previous_decision := Some (prev
                                     \<lparr>q_value_target := Some (r + d * prediction),
                                      q_value_target_confidence :=
                                        Some prediction_confidence\<rparr>)\<rparr>))
                  | None \<Rightarrow>
                      if stabilize a then
                        (case divide_by r (1 + get_discount a) of
                           Inl e \<Rightarrow> Inl e
                         | Inr previous_q_value \<Rightarrow>
                             Inr (a\<lparr>previous_decision := Some (prev
                                    \<lparr>q_value_target := Some previous_q_value,
                                     q_value_target_confidence := Some 1\<rparr>)\<rparr>))
                      else
                        Inr (a\<lparr>previous_decision := Some (prev
                               \<lparr>q_value_target := Some r,
                                q_value_target_confidence := Some 1\<rparr>)\<rparr>))))"

text \<open>
  \<^verbatim>\<open>_close_previous_decision\<close> prints \<^verbatim>\<open>float(q_value_target)\<close> of the previous decision,
  which raises \<^verbatim>\<open>TypeError\<close> on \<^verbatim>\<open>None\<close>, asks the policy for the loss of that decision,
  and shifts the current decision into the previous slot.
\<close>

definition close_previous_decision ::
  "('s, 'a, 'l) action_policy \<Rightarrow> ('s, 'a) TDAgent \<Rightarrow> error + (('s, 'a) TDAgent \<times> 'l option)" where
  "close_previous_decision pol a =
     (case previous_decision a of
        Some prev \<Rightarrow>
          (case q_value_target prev of
             None \<Rightarrow> Inl TypeError
           | Some t \<Rightarrow>
               Inr (a\<lparr>previous_decision := current_decision a, current_decision := None\<rparr>,
                    Some (policy_get_loss pol prev)))
      | None \<Rightarrow>
          Inr (a\<lparr>previous_decision := current_decision a, current_decision := None\<rparr>, None))"

definition reset ::
  "('s, 'a, 'l) action_policy \<Rightarrow> ('s, 'a) TDAgent \<Rightarrow> error + (('s, 'a) TDAgent \<times> 'l option)" where
  "reset pol a =
     (let a = a\<lparr>episodes := episodes a + 1\<rparr>
      in case update_previous_decision a of
           Inl e \<Rightarrow> Inl e
         | Inr a \<Rightarrow>
             (let a =
                (if stabilize a then
                   (let reward' = 0;
                        a = (case max_observable_reward a of
                               None \<Rightarrow> a\<lparr>max_observable_reward := Some reward'\<rparr>
                             | Some m \<Rightarrow> a\<lparr>max_observable_reward := Some (max reward' m)\<rparr>)
                    in (case min_observable_reward a of
                          None \<Rightarrow> a\<lparr>min_observable_reward := Some reward'\<rparr>
                        | Some m \<Rightarrow> a\<lparr>min_observable_reward := Some (min reward' m)\<rparr>))
                 else a)
              in close_previous_decision pol a))"

definition choose_action ::
  "('s, 'a, 'l) action_policy \<Rightarrow> ('s, 'a) TDAgent \<Rightarrow> 's \<Rightarrow> error + (('s, 'a) TDAgent \<times> 'a)" where
  "choose_action pol a s =
     (if current_decision a \<noteq> None then Inl AssertionError
      else
        (let n = (case previous_decision a of
                    Some prev \<Rightarrow> decision_step prev + 1
                  | None \<Rightarrow> 0);
             decision = policy_choose_action pol s n;
             a = a\<lparr>current_decision := Some decision\<rparr>
         in case update_previous_decision a of
              Inl e \<Rightarrow> Inl e
            | Inr a \<Rightarrow> Inr (a, selected_action decision)))"

definition accept_reward ::
  "('s, 'a, 'l) action_policy \<Rightarrow> ('s, 'a) TDAgent \<Rightarrow> real \<Rightarrow> error + (('s, 'a) TDAgent \<times> 'l option)" where
  "accept_reward pol a reward' =
     (case current_decision a of
        None \<Rightarrow> Inl AssertionError
      | Some cur \<Rightarrow>
          if reward cur \<noteq> None then Inl AssertionError
          else
            (let a = a\<lparr>total_steps := total_steps a + 1\<rparr>;
                 a = a\<lparr>current_decision := Some (cur\<lparr>reward := Some reward'\<rparr>)\<rparr>;
                 a =
                   (if stabilize a then
                      (let a = (case max_observable_reward a of
                                  None \<Rightarrow> a\<lparr>max_observable_reward := Some reward'\<rparr>
                                | Some m \<Rightarrow> a\<lparr>max_observable_reward := Some (max reward' m)\<rparr>)
                       in (case min_observable_reward a of
                             None \<Rightarrow> a\<lparr>min_observable_reward := Some reward'\<rparr>
                           | Some m \<Rightarrow> a\<lparr>min_observable_reward := Some (min reward' m)\<rparr>))
                    else a)
             in close_previous_decision pol a))"

text \<open>
  A caller drives an agent by a sequence of calls; \<open>run\<close> performs them in order,
  dropping the returned actions and losses, and stops at the first exception.
\<close>

datatype 's call = ChooseAction 's | AcceptReward real | Reset

fun call_agent ::
  "('s, 'a, 'l) action_policy \<Rightarrow> ('s, 'a) TDAgent \<Rightarrow> 's call \<Rightarrow> error + ('s, 'a) TDAgent" where
  "call_agent pol a (ChooseAction s) = map_sum id fst (choose_action pol a s)"
| "call_agent pol a (AcceptReward r) = map_sum id fst (accept_reward pol a r)"
| "call_agent pol a Reset = map_sum id fst (reset pol a)"

fun run ::
  "('s, 'a, 'l) action_policy \<Rightarrow> ('s, 'a) TDAgent \<Rightarrow> 's call list \<Rightarrow> error + ('s, 'a) TDAgent" where
  "run pol a [] = Inr a"
| "run pol a (c # cs) =
     (case call_agent pol a c of Inl e \<Rightarrow> Inl e | Inr a' \<Rightarrow> run pol a' cs)"

text \<open>
  The clamp of the specification: a prediction is cut to the observed reward bounds,
  each bound applying only once it has been observed.
\<close>

fun clamp :: "real \<Rightarrow> real option \<Rightarrow> real option \<Rightarrow> real" where
  "clamp p None None = p"
| "clamp p (Some lo) None = max p lo"
| "clamp p None (Some hi) = min p hi"
| "clamp p (Some lo) (Some hi) = min (max p lo) hi"

definition zero_in_bounds :: "('s, 'a) TDAgent \<Rightarrow> bool" where
  "zero_in_bounds a =
     (case (min_observable_reward a, max_observable_reward a) of
        (Some lo, Some hi) \<Rightarrow> lo \<le> 0 \<and> 0 \<le> hi
      | _ \<Rightarrow> False)"

section \<open>The state kernel (\<^verbatim>\<open>cephalus/kernel.py\<close>)\<close>

subsection \<open>Floating-point numbers\<close>

text \<open>
  A float is a finite number, an infinity, or NaN. The finite floats of a format are
  reals; every operation computes the exact result and rounds it to the format, to the
  nearest float and to the even one of two nearest. Negative zero is not told apart
  from zero.
\<close>

datatype fl = Fin real | PInf | NInf | NaN

fun is_nan :: "fl \<Rightarrow> bool" where
  "is_nan NaN = True"
| "is_nan _ = False"

text \<open>The number of binary digits of a natural number.\<close>

fun bit_length :: "nat \<Rightarrow> nat" where
  "bit_length n = (if n = 0 then 0 else Suc (bit_length (n div 2)))"

declare bit_length.simps [simp del]

text \<open>
  For \<open>x > 0\<close>, the exponent \<open>e\<close> with \<open>2^e \<le> x < 2^(e+1)\<close> (lemma
  \<open>binary_exponent_bounds\<close> below), and the powers of two with integer exponents.
\<close>

definition binary_exponent :: "real \<Rightarrow> int" where
  "binary_exponent x =
     (if 1 \<le> x then int (bit_length (nat \<lfloor>x\<rfloor>)) - 1
      else - int (bit_length (nat \<lceil>1 / x\<rceil> - 1)))"

definition two_to :: "int \<Rightarrow> real" where
  "two_to e = (if 0 \<le> e then 2 ^ nat e else 1 / 2 ^ nat (- e))"

definition round_half_even :: "real \<Rightarrow> int" where
  "round_half_even r =
     (let f = \<lfloor>r\<rfloor>; d = r - of_int f
      in if d < 1 / 2 then f else if 1 / 2 < d then f + 1 else if even f then f else f + 1)"

text \<open>
  Rounding to the binary format with \<open>p\<close> digits and exponents from \<open>emin\<close> to
  \<open>emax\<close>: the spacing of the floats around \<open>x\<close> is \<open>2^(e - p + 1)\<close>, where \<open>e\<close> is
  the exponent of \<open>x\<close> and at least \<open>emin\<close> (below it the floats are subnormal); a
  result of magnitude \<open>2^(emax + 1)\<close> or more is an infinity. \<open>round32\<close> is
  TensorFlow's default \<^verbatim>\<open>float32\<close>, the type of \<^verbatim>\<open>tf.zeros(config.state_width)\<close> and of the
  tensors of the kernel; \<open>round64\<close> is the Python \<^verbatim>\<open>float\<close>.
\<close>

definition round_to_format :: "nat \<Rightarrow> int \<Rightarrow> int \<Rightarrow> real \<Rightarrow> fl" where
  "round_to_format p emin emax x =
     (if x = 0 then Fin 0
      else
        (let e = max (binary_exponent \<bar>x\<bar>) emin;
             q = two_to (e - int p + 1);
             y = sgn x * of_int (round_half_even (\<bar>x\<bar> / q)) * q
         in if two_to (emax + 1) \<le> \<bar>y\<bar> then (if 0 < x then PInf else NInf) else Fin y))"

definition round32 :: "real \<Rightarrow> fl" where
  "round32 = round_to_format 24 (- 126) 127"

definition round64 :: "real \<Rightarrow> fl" where
  "round64 = round_to_format 53 (- 1022) 1023"

text \<open>Sum, product and quotient of two floats, rounded by \<open>rnd\<close>.\<close>

fun ieee_add :: "(real \<Rightarrow> fl) \<Rightarrow> fl \<Rightarrow> fl \<Rightarrow> fl" where
  "ieee_add rnd NaN _ = NaN"
| "ieee_add rnd _ NaN = NaN"
| "ieee_add rnd PInf NInf = NaN"
| "ieee_add rnd NInf PInf = NaN"
| "ieee_add rnd PInf _ = PInf"
| "ieee_add rnd _ PInf = PInf"
| "ieee_add rnd NInf _ = NInf"
| "ieee_add rnd _ NInf = NInf"
| "ieee_add rnd (Fin a) (Fin b) = rnd (a + b)"

fun ieee_mul :: "(real \<Rightarrow> fl) \<Rightarrow> fl \<Rightarrow> fl \<Rightarrow> fl" where
  "ieee_mul rnd NaN _ = NaN"
| "ieee_mul rnd _ NaN = NaN"
| "ieee_mul rnd (Fin a) (Fin b) = rnd (a * b)"
| "ieee_mul rnd (Fin a) PInf = (if 0 < a then PInf else if a < 0 then NInf else NaN)"
| "ieee_mul rnd (Fin a) NInf = (if 0 < a then NInf else if a < 0 then PInf else NaN)"
| "ieee_mul rnd PInf (Fin b) = (if 0 < b then PInf else if b < 0 then NInf else NaN)"
| "ieee_mul rnd NInf (Fin b) = (if 0 < b then NInf else if b < 0 then PInf else NaN)"
| "ieee_mul rnd PInf PInf = PInf"
| "ieee_mul rnd NInf NInf = PInf"
| "ieee_mul rnd PInf NInf = NInf"
| "ieee_mul rnd NInf PInf = NInf"

fun ieee_div :: "(real \<Rightarrow> fl) \<Rightarrow> fl \<Rightarrow> fl \<Rightarrow> fl" where
  "ieee_div rnd NaN _ = NaN"
| "ieee_div rnd _ NaN = NaN"
| "ieee_div rnd (Fin a) (Fin b) =
     (if b = 0 then (if a = 0 then NaN else if 0 < a then PInf else NInf) else rnd (a / b))"
| "ieee_div rnd (Fin a) PInf = Fin 0"
| "ieee_div rnd (Fin a) NInf = Fin 0"
| "ieee_div rnd PInf (Fin b) = (if 0 \<le> b then PInf else NInf)"
| "ieee_div rnd NInf (Fin b) = (if 0 \<le> b then NInf else PInf)"
| "ieee_div rnd PInf PInf = NaN"
| "ieee_div rnd PInf NInf = NaN"
| "ieee_div rnd NInf PInf = NaN"
| "ieee_div rnd NInf NInf = NaN"

subsection \<open>Tensors\<close>

text \<open>
  A tensor of rank 1 is a list of \<^verbatim>\<open>float32\<close> entries, a scalar tensor is one entry.
  Arithmetic on tensors is in \<^verbatim>\<open>float32\<close>. A Python number that meets a tensor in an
  operation is converted to \<^verbatim>\<open>float32\<close> first (\<open>to_float32\<close>).
\<close>

type_synonym tensor = "fl list"

definition fl_add :: "fl \<Rightarrow> fl \<Rightarrow> fl" where
  "fl_add = ieee_add round32"

definition fl_mul :: "fl \<Rightarrow> fl \<Rightarrow> fl" where
  "fl_mul = ieee_mul round32"

definition fl_div :: "fl \<Rightarrow> fl \<Rightarrow> fl" where
  "fl_div = ieee_div round32"

fun to_float32 :: "fl \<Rightarrow> fl" where
  "to_float32 (Fin x) = round32 x"
| "to_float32 x = x"

text \<open>The product of a Python float and a tensor entry (\<^verbatim>\<open>module.loss_scale * module_loss\<close>).\<close>

definition fl_scale :: "real \<Rightarrow> fl \<Rightarrow> fl" where
  "fl_scale s l = fl_mul (round32 s) l"

text \<open>The sum of two Python floats (\<^verbatim>\<open>total_scale += module.loss_scale\<close>).\<close>

definition py_add :: "fl \<Rightarrow> fl \<Rightarrow> fl" where
  "py_add = ieee_add round64"

text \<open>The comparison \<^verbatim>\<open>x > 0.0\<close> of a Python float.\<close>

fun fl_positive :: "fl \<Rightarrow> bool" where
  "fl_positive (Fin a) = (0 < a)"
| "fl_positive PInf = True"
| "fl_positive _ = False"

text \<open>
  \<^verbatim>\<open>tf.clip_by_value(t, lo, hi)\<close> is \<^verbatim>\<open>maximum(minimum(t, hi), lo)\<close>, entry by entry,
  and NaN stays NaN. The limits \<open>-1e6\<close> and \<open>1e6\<close> are floats, and a minimum or maximum
  of floats is one of them, so nothing is rounded.
\<close>

fun clip_entry :: "real \<Rightarrow> real \<Rightarrow> fl \<Rightarrow> fl" where
  "clip_entry lo hi NaN = NaN"
| "clip_entry lo hi (Fin a) = Fin (max (min a hi) lo)"
| "clip_entry lo hi PInf = Fin (max hi lo)"
| "clip_entry lo hi NInf = Fin lo"

definition clip_by_value :: "tensor \<Rightarrow> real \<Rightarrow> real \<Rightarrow> tensor" where
  "clip_by_value t lo hi = map (clip_entry lo hi) t"

definition any_nan :: "tensor \<Rightarrow> bool" where
  "any_nan t = list_ex is_nan t"

text \<open>
  \<^verbatim>\<open>tf.add_n\<close> on scalars, and on tensors of rank 1, whose shapes must agree. The sum
  is taken from left to right, with a rounding after every addition. TensorFlow does not
  promise an order; of one, two or three equal summands every order has the same sum.
\<close>

fun add_n_scalar :: "fl list \<Rightarrow> fl" where
  "add_n_scalar [] = Fin 0"
| "add_n_scalar [x] = x"
| "add_n_scalar (x # y # ys) = add_n_scalar (fl_add x y # ys)"

fun add_n :: "tensor list \<Rightarrow> error + tensor" where
  "add_n [] = Inl InvalidArgumentError"
| "add_n [t] = Inr t"
| "add_n (t # u # us) =
     (if length t = length u then add_n (map2 fl_add t u # us)
      else Inl InvalidArgumentError)"

text \<open>The quotient of a tensor by a Python number (\<^verbatim>\<open>tf.add_n(...) / len(...)\<close>).\<close>

definition tensor_div :: "tensor \<Rightarrow> fl \<Rightarrow> tensor" where
  "tensor_div t s = map (\<lambda>x. fl_div x (to_float32 s)) t"

text \<open>A value that is a plain tensor or a trainable variable (\<^verbatim>\<open>Union[tf.Tensor, tf.Variable]\<close>).\<close>

datatype tf_value = Tensor tensor | Variable string tensor

fun value_of :: "tf_value \<Rightarrow> tensor" where
  "value_of (Tensor t) = t"
| "value_of (Variable n t) = t"

fun is_Variable :: "tf_value \<Rightarrow> bool" where
  "is_Variable (Variable n t) = True"
| "is_Variable (Tensor t) = False"


subsection \<open>Frames, configuration, kernel and modules\<close>

text \<open>
  A gradient tape with the variables it watches. \<^verbatim>\<open>__enter__\<close> starts the recording,
  \<^verbatim>\<open>__exit__\<close> stops it (a tape that does not record is left as it is).
\<close>

record GradientTape =
  persistent :: bool
  watch_accessed_variables :: bool
  recording :: bool
  watched :: "tf_value list"

definition tape_enter :: "GradientTape \<Rightarrow> GradientTape" where
  "tape_enter t = t\<lparr>recording := True\<rparr>"

definition tape_watch :: "GradientTape \<Rightarrow> tf_value \<Rightarrow> GradientTape" where
  "tape_watch t v = t\<lparr>watched := watched t @ [v]\<rparr>"

definition tape_exit :: "GradientTape \<Rightarrow> GradientTape" where
  "tape_exit t = t\<lparr>recording := False\<rparr>"

text \<open>
  An attribute that a Python object has only once it has been assigned: reading it
  while it is \<open>Missing\<close> raises \<^verbatim>\<open>AttributeError\<close>.
\<close>

datatype 'a attr = Missing | Attr 'a

text \<open>
  The dataclass \<^verbatim>\<open>StateFrame\<close> of \<^verbatim>\<open>frame.py\<close>, field by field, and the two attributes
  that \<^verbatim>\<open>kernel.py\<close> uses and the dataclass does not declare: \<^verbatim>\<open>input_tensors\<close> and
  \<^verbatim>\<open>current_state_gradient\<close>. Modules are referred to by their identity, a number;
  \<open>'d\<close> is the data that a module keeps in a frame. \<^verbatim>\<open>InputSample\<close> is declared in
  \<^verbatim>\<open>cephalus.modules.interface\<close>, and the kernel does not look into it.
\<close>

type_synonym module_id = nat

typedecl InputSample

record 'd StateFrame =
  stream_id :: string
  previous_state :: tf_value
  tape :: "GradientTape option"
  clock_ticks :: int
  input_samples :: "InputSample list option"
  attended_input_tensor :: "tensor option"
  current_state :: "tensor option"
  combined_loss :: "fl option"
  trained :: bool
  module_data :: "module_id \<rightharpoonup> 'd"
  input_tensors :: "tf_value list option attr"
  current_state_gradient :: "tensor attr"

text \<open>
  The constructor of the dataclass, called with keywords. \<^verbatim>\<open>stream_id\<close>,
  \<^verbatim>\<open>previous_state\<close> and \<^verbatim>\<open>tape\<close> have no default: a call without one of them raises
  \<^verbatim>\<open>TypeError\<close>. The kernel always passes the last two, so only \<^verbatim>\<open>stream_id\<close> is
  optional here (\<open>None\<close>: the keyword is not given).
\<close>

definition StateFrame_init ::
  "string option \<Rightarrow> tf_value \<Rightarrow> GradientTape option \<Rightarrow> error + 'd StateFrame" where
  "StateFrame_init sid ps t =
     (case sid of
        None \<Rightarrow> Inl TypeError
      | Some s \<Rightarrow>
          Inr \<lparr>stream_id = s, previous_state = ps, tape = t, clock_ticks = 0,
               input_samples = None, attended_input_tensor = None, current_state = None,
               combined_loss = None, trained = False, module_data = Map.empty,
               input_tensors = Missing, current_state_gradient = Missing\<rparr>)"

text \<open>
  Modelled from the spec: \<^verbatim>\<open>StateKernelConfig\<close>, whose declaration (\<^verbatim>\<open>cephalus.config\<close>)
  is not among the sources, with the numeric settings the kernel reads;
  the optimizer and the model template are not part of the model. A configuration
  object is truthy.
\<close>

record StateKernelConfig =
  state_width :: nat
  input_width :: nat
  future_gradient_coefficient :: real
  stabilized_gradient :: bool

text \<open>
  The attributes of \<^verbatim>\<open>StateKernel\<close>. The module set is a list without duplicates, in the
  order in which the set is iterated.
\<close>

record StateKernel =
  k_config :: "StateKernelConfig option"
  k_initial_state :: "tf_value option"
  k_initial_state_is_trainable :: bool
  k_default_input :: "tf_value option"
  k_default_input_is_trainable :: bool
  k_modules :: "module_id list"
  k_input_attention_provider :: "module_id option"
  k_state_prediction_provider :: "module_id option"
  k_retroactive_gradient_provider :: "module_id option"
  k_trainable_weights :: "tf_value list option"

text \<open>
  Modelled from the spec: the interface of a module, whose declaration
  (\<^verbatim>\<open>cephalus.modules.interface\<close>) is not among the sources, as the kernel calls it: the
  methods are functions of the frames they are given, the \<^verbatim>\<open>isinstance\<close> tests are
  flags, and \<^verbatim>\<open>configure\<close> may change the kernel (a provider registers itself there).
  \<open>attend_inputs\<close> yields the tensor that the attention provider stores in
  \<^verbatim>\<open>attended_input_tensor\<close>; \<open>train_retroactive_loss\<close> yields the exception it
  raises, if any. What a module does to the values of the weights is not part of the
  model.
\<close>

record ('e, 'd) StateKernelModule =
  loss_scale :: real
  module_configure :: "StateKernel \<Rightarrow> error + StateKernel"
  module_get_trainable_weights :: "tf_value list"
  get_new_frame_data :: "'d StateFrame \<Rightarrow> 'd StateFrame option \<Rightarrow> 'd option"
  module_get_loss :: "'d StateFrame \<Rightarrow> 'd StateFrame \<Rightarrow> fl option"
  is_InputProvider :: bool
  get_input :: "'e \<Rightarrow> 'd StateFrame \<Rightarrow> tensor option"
  attend_inputs :: "'d StateFrame \<Rightarrow> tensor"
  module_predict_state :: "'d StateFrame \<Rightarrow> tensor option"
  is_RetroactiveLossProvider :: bool
  train_retroactive_loss :: "'d StateFrame \<Rightarrow> 'd StateFrame \<Rightarrow> error option"
  is_GradientProvider :: bool
  get_current_state_gradient :: "'e \<Rightarrow> 'd StateFrame \<Rightarrow> tensor option"

text \<open>
  What the kernel takes from outside: the module objects by identity; the gradients that
  a tape computes for a loss and a list of weights (\<^verbatim>\<open>None\<close> for an unused weight);
  \<^verbatim>\<open>tf.clip_by_global_norm\<close>; the optimizer's \<^verbatim>\<open>apply_gradients\<close>, which yields the
  exception it raises, if any (the new values of the weights are not part of the
  model); and the identities of the default providers that \<^verbatim>\<open>configure\<close> creates. The
  calls into TensorFlow can raise as well.
\<close>

record ('e, 'd) world =
  module_of :: "module_id \<Rightarrow> ('e, 'd) StateKernelModule"
  tape_gradient :: "GradientTape \<Rightarrow> fl \<Rightarrow> tf_value list \<Rightarrow> error + tensor option list"
  clip_by_global_norm :: "tensor option list \<Rightarrow> real \<Rightarrow> error + tensor option list"
  apply_gradients :: "(tensor option \<times> tf_value) list \<Rightarrow> error option"
  new_StandardInputAttentionProvider :: module_id
  new_StandardStatePredictionProvider :: module_id


subsection \<open>Sequencing of calls that can raise\<close>

definition and_then :: "error + 'a \<Rightarrow> ('a \<Rightarrow> error + 'b) \<Rightarrow> error + 'b" where
  "and_then r f = (case r of Inl e \<Rightarrow> Inl e | Inr v \<Rightarrow> f v)"

definition py_assert :: "bool \<Rightarrow> error + unit" where
  "py_assert b = (if b then Inr () else Inl AssertionError)"

subsection \<open>Properties and their setters\<close>

definition kernel_input_width :: "StateKernel \<Rightarrow> error + nat" where
  "kernel_input_width k =
     (case k_config k of None \<Rightarrow> Inl AssertionError | Some c \<Rightarrow> Inr (input_width c))"

definition set_state_prediction_provider :: "StateKernel \<Rightarrow> module_id \<Rightarrow> error + StateKernel" where
  "set_state_prediction_provider k m =
     and_then (py_assert (k_state_prediction_provider k = None)) (\<lambda>_.
     Inr (k\<lparr>k_state_prediction_provider := Some m\<rparr>))"

definition set_retroactive_gradient_provider ::
  "StateKernel \<Rightarrow> module_id \<Rightarrow> error + StateKernel" where
  "set_retroactive_gradient_provider k m =
     and_then (py_assert (k_retroactive_gradient_provider k = None)) (\<lambda>_.
     Inr (k\<lparr>k_retroactive_gradient_provider := Some m\<rparr>))"

text \<open>The setter of \<^verbatim>\<open>input_attention_provider\<close> has no assertion and cannot raise.\<close>

definition set_input_attention_provider :: "StateKernel \<Rightarrow> module_id \<Rightarrow> StateKernel" where
  "set_input_attention_provider k v = k\<lparr>k_input_attention_provider := Some v\<rparr>"

definition initial_state :: "StateKernel \<Rightarrow> error + tf_value" where
  "initial_state k =
     (case k_initial_state k of None \<Rightarrow> Inl AssertionError | Some v \<Rightarrow> Inr v)"

definition set_initial_state :: "StateKernel \<Rightarrow> tf_value \<Rightarrow> error + StateKernel" where
  "set_initial_state k v =
     and_then (py_assert (k_initial_state k = None)) (\<lambda>_.
     Inr (k\<lparr>k_initial_state := Some v, k_initial_state_is_trainable := is_Variable v\<rparr>))"

definition initial_state_is_trainable :: "StateKernel \<Rightarrow> error + bool" where
  "initial_state_is_trainable k =
     and_then (py_assert (k_initial_state k \<noteq> None)) (\<lambda>_.
     Inr (k_initial_state_is_trainable k))"

definition default_input :: "StateKernel \<Rightarrow> error + tf_value" where
  "default_input k =
     (case k_default_input k of None \<Rightarrow> Inl AssertionError | Some v \<Rightarrow> Inr v)"

definition set_default_input :: "StateKernel \<Rightarrow> tf_value \<Rightarrow> StateKernel" where
  "set_default_input k v =
     k\<lparr>k_default_input := Some v, k_default_input_is_trainable := is_Variable v\<rparr>"

definition default_input_is_trainable :: "StateKernel \<Rightarrow> error + bool" where
  "default_input_is_trainable k =
     and_then (py_assert (k_default_input k \<noteq> None)) (\<lambda>_.
     Inr (k_default_input_is_trainable k))"

subsection \<open>Modules and configuration\<close>

definition recompute_trainable_weights ::
  "('e, 'd) world \<Rightarrow> StateKernel \<Rightarrow> error + StateKernel" where
  "recompute_trainable_weights w k =
     and_then (py_assert (k_config k \<noteq> None)) (\<lambda>_.
     and_then (initial_state_is_trainable k) (\<lambda>ist.
     and_then (if ist then and_then (initial_state k) (\<lambda>v. Inr [v]) else Inr []) (\<lambda>weights.
     and_then (default_input_is_trainable k) (\<lambda>dit.
     and_then (if dit then and_then (default_input k) (\<lambda>v. Inr (weights @ [v]))
               else Inr weights) (\<lambda>weights.
     Inr (k\<lparr>k_trainable_weights :=
              Some (weights @
                    concat (map (\<lambda>m. module_get_trainable_weights (module_of w m))
                              (k_modules k)))\<rparr>))))))"

definition get_trainable_weights :: "StateKernel \<Rightarrow> error + tf_value list" where
  "get_trainable_weights k =
     and_then (py_assert (k_config k \<noteq> None)) (\<lambda>_.
     (case k_trainable_weights k of None \<Rightarrow> Inl AssertionError | Some ws \<Rightarrow> Inr ws))"

definition add_module :: "('e, 'd) world \<Rightarrow> StateKernel \<Rightarrow> module_id \<Rightarrow> error + StateKernel" where
  "add_module w k m =
     (if m \<notin> set (k_modules k) then
        (let k = k\<lparr>k_modules := k_modules k @ [m]\<rparr>
         in if k_config k \<noteq> None then
              and_then (module_configure (module_of w m) k) (recompute_trainable_weights w)
            else Inr k)
      else Inr k)"

fun configure_modules ::
  "('e, 'd) world \<Rightarrow> module_id list \<Rightarrow> StateKernel \<Rightarrow> error + StateKernel" where
  "configure_modules w [] k = Inr k"
| "configure_modules w (m # ms) k =
     and_then (module_configure (module_of w m) k) (configure_modules w ms)"

definition configure ::
  "('e, 'd) world \<Rightarrow> StateKernel \<Rightarrow> StateKernelConfig \<Rightarrow> error + StateKernel" where
  "configure w k config =
     and_then (py_assert (k_config k = None)) (\<lambda>_.
     (let k = k\<lparr>k_config := Some config\<rparr>
      in and_then (configure_modules w (k_modules k) k) (\<lambda>k.
         and_then (if k_input_attention_provider k = None
                   then add_module w k (new_StandardInputAttentionProvider w)
                   else Inr k) (\<lambda>k.
         and_then (if k_state_prediction_provider k = None
                   then add_module w k (new_StandardStatePredictionProvider w)
                   else Inr k) (\<lambda>k.
         and_then (if k_initial_state k = None
                   then set_initial_state k
                          (Variable ''initial_state'' (replicate (state_width config) (Fin 0)))
                   else Inr k) (\<lambda>k.
         recompute_trainable_weights w k))))))"


subsection \<open>Loss\<close>

text \<open>
  The loop of \<^verbatim>\<open>get_loss\<close>. The scaled loss is a \<^verbatim>\<open>float32\<close> product; \<^verbatim>\<open>total_scale\<close>
  is a Python float, summed in \<^verbatim>\<open>float64\<close>.
\<close>

fun module_losses ::
  "('e, 'd) world \<Rightarrow> 'd StateFrame \<Rightarrow> 'd StateFrame \<Rightarrow> module_id list \<Rightarrow>
     fl list \<times> fl \<Rightarrow> fl list \<times> fl" where
  "module_losses w previous_frame current_frame [] (losses, total_scale) =
     (losses, total_scale)"
| "module_losses w previous_frame current_frame (m # ms) (losses, total_scale) =
     (case module_get_loss (module_of w m) previous_frame current_frame of
        Some module_loss \<Rightarrow>
          if loss_scale (module_of w m) > 0 then
            module_losses w previous_frame current_frame ms
              (losses @ [fl_scale (loss_scale (module_of w m)) module_loss],
               py_add total_scale (Fin (loss_scale (module_of w m))))
          else module_losses w previous_frame current_frame ms (losses, total_scale)
      | None \<Rightarrow> module_losses w previous_frame current_frame ms (losses, total_scale))"

definition get_loss ::
  "('e, 'd) world \<Rightarrow> StateKernel \<Rightarrow> 'd StateFrame \<Rightarrow> 'd StateFrame \<Rightarrow> error + fl option" where
  "get_loss w k previous_frame current_frame =
     and_then (py_assert (k_config k \<noteq> None)) (\<lambda>_.
     and_then (py_assert (current_state previous_frame \<noteq> None)) (\<lambda>_.
     (case module_losses w previous_frame current_frame (k_modules k) ([], Fin 0) of
        (losses, total_scale) \<Rightarrow>
          and_then (py_assert (fl_positive total_scale \<or> losses = [])) (\<lambda>_.
          if length losses = 1 then
            Inr (Some (fl_div (losses ! 0) (to_float32 total_scale)))
          else if losses \<noteq> [] then
            Inr (Some (fl_div (add_n_scalar losses) (to_float32 total_scale)))
          else Inr None))))"

subsection \<open>Frames\<close>

definition get_previous_state ::
  "StateKernel \<Rightarrow> 'd StateFrame option \<Rightarrow> error + tf_value" where
  "get_previous_state k previous_frame =
     and_then (py_assert (k_config k \<noteq> None)) (\<lambda>_.
     (case previous_frame of
        None \<Rightarrow> initial_state k
      | Some pf \<Rightarrow>
          (case current_state pf of
             None \<Rightarrow> Inl AssertionError
           | Some ps \<Rightarrow> Inr (Tensor ps))))"

definition new_gradient_tape :: "StateKernel \<Rightarrow> error + GradientTape" where
  "new_gradient_tape k =
     and_then (py_assert (k_config k \<noteq> None)) (\<lambda>_.
     (let t = \<lparr>persistent = True, watch_accessed_variables = False, recording = False,
                watched = []\<rparr>;
          t = tape_enter t
      in and_then (get_trainable_weights k) (\<lambda>weights.
         Inr (foldl tape_watch t weights))))"

fun new_frame_data ::
  "('e, 'd) world \<Rightarrow> 'd StateFrame option \<Rightarrow> module_id list \<Rightarrow> 'd StateFrame \<Rightarrow> 'd StateFrame" where
  "new_frame_data w previous_frame [] nf = nf"
| "new_frame_data w previous_frame (m # ms) nf =
     (case get_new_frame_data (module_of w m) nf previous_frame of
        Some d \<Rightarrow>
          new_frame_data w previous_frame ms (nf\<lparr>module_data := (module_data nf)(m \<mapsto> d)\<rparr>)
      | None \<Rightarrow> new_frame_data w previous_frame ms nf)"

text \<open>
  \<^verbatim>\<open>new_frame\<close> calls \<^verbatim>\<open>StateFrame(previous_state=..., tape=...)\<close>, without \<^verbatim>\<open>stream_id\<close>.
\<close>

definition new_frame ::
  "('e, 'd) world \<Rightarrow> StateKernel \<Rightarrow> 'd StateFrame option \<Rightarrow> error + 'd StateFrame" where
  "new_frame w k previous_frame =
     and_then (py_assert (k_config k \<noteq> None)) (\<lambda>_.
     and_then (get_previous_state k previous_frame) (\<lambda>ps.
     and_then (new_gradient_tape k) (\<lambda>t.
     and_then (StateFrame_init None ps (Some t)) (\<lambda>nf.
     Inr (new_frame_data w previous_frame (k_modules k) nf)))))"

fun gather_from_modules ::
  "('e, 'd) world \<Rightarrow> StateKernel \<Rightarrow> 'e \<Rightarrow> 'd StateFrame \<Rightarrow> module_id list \<Rightarrow>
     tf_value list \<Rightarrow> error + tf_value list" where
  "gather_from_modules w k environment frame [] input_tensors' = Inr input_tensors'"
| "gather_from_modules w k environment frame (m # ms) input_tensors' =
     (if \<not> is_InputProvider (module_of w m) then
        gather_from_modules w k environment frame ms input_tensors'
      else
        (case get_input (module_of w m) environment frame of
           Some input_tensor \<Rightarrow>
             and_then (kernel_input_width k) (\<lambda>width.
             and_then (py_assert (length input_tensor = width)) (\<lambda>_.
             gather_from_modules w k environment frame ms
               (input_tensors' @ [Tensor input_tensor])))
         | None \<Rightarrow> gather_from_modules w k environment frame ms input_tensors'))"

text \<open>
  Reading \<^verbatim>\<open>frame.input_tensors\<close>: the attribute is not a field of the dataclass, so on a
  frame on which nobody has set it the read raises \<^verbatim>\<open>AttributeError\<close>.
\<close>

definition get_input_tensors :: "'d StateFrame \<Rightarrow> error + tf_value list option" where
  "get_input_tensors frame =
     (case input_tensors frame of Missing \<Rightarrow> Inl AttributeError | Attr v \<Rightarrow> Inr v)"

definition gather_inputs ::
  "('e, 'd) world \<Rightarrow> StateKernel \<Rightarrow> 'e \<Rightarrow> 'd StateFrame \<Rightarrow> error + 'd StateFrame" where
  "gather_inputs w k environment frame =
     and_then (py_assert (k_config k \<noteq> None)) (\<lambda>_.
     and_then (py_assert (current_state frame = None)) (\<lambda>_.
     and_then (get_input_tensors frame) (\<lambda>its.
     and_then (py_assert (its = None)) (\<lambda>_.
     and_then (default_input k) (\<lambda>di.
     and_then (gather_from_modules w k environment frame (k_modules k) [di]) (\<lambda>its.
     Inr (frame\<lparr>input_tensors := Attr (Some its)\<rparr>)))))))"

definition predict_state ::
  "('e, 'd) world \<Rightarrow> StateKernel \<Rightarrow> 'd StateFrame \<Rightarrow> error + 'd StateFrame" where
  "predict_state w k frame =
     and_then (py_assert (k_config k \<noteq> None)) (\<lambda>_.
     and_then (get_input_tensors frame) (\<lambda>its.
     and_then (py_assert (its \<noteq> None)) (\<lambda>_.
     and_then (py_assert (current_state frame = None)) (\<lambda>_.
     (case k_state_prediction_provider k of
        None \<Rightarrow> Inl AssertionError
      | Some m \<Rightarrow>
          (case module_predict_state (module_of w m) frame of
             None \<Rightarrow> Inl AssertionError
           | Some new_state \<Rightarrow>
               and_then (py_assert (\<not> any_nan new_state)) (\<lambda>_.
               Inr (frame\<lparr>current_state :=
                            Some (clip_by_value new_state (- 1000000) 1000000)\<rparr>))))))))"

subsection \<open>Training and stepping\<close>

fun train_retroactive_losses ::
  "('e, 'd) world \<Rightarrow> 'd StateFrame \<Rightarrow> 'd StateFrame \<Rightarrow> module_id list \<Rightarrow> error option" where
  "train_retroactive_losses w previous_frame current_frame [] = None"
| "train_retroactive_losses w previous_frame current_frame (m # ms) =
     (if is_RetroactiveLossProvider (module_of w m) then
        (case train_retroactive_loss (module_of w m) previous_frame current_frame of
           Some e \<Rightarrow> Some e
         | None \<Rightarrow> train_retroactive_losses w previous_frame current_frame ms)
      else train_retroactive_losses w previous_frame current_frame ms)"

text \<open>
  The body of the \<^verbatim>\<open>try\<close> block of \<^verbatim>\<open>train\<close>, for the tape \<open>t\<close> of the previous
  frame: it yields the previous frame as the body leaves it and the exception that ended
  it, if any. The loss is a scalar by its type, so \<^verbatim>\<open>tf.assert_rank(loss, 0)\<close> holds.
\<close>

definition train_body ::
  "('e, 'd) world \<Rightarrow> StateKernel \<Rightarrow> GradientTape \<Rightarrow> 'd StateFrame \<Rightarrow> 'd StateFrame \<Rightarrow>
     'd StateFrame \<times> error option" where
  "train_body w k t previous_frame current_frame =
     (case get_loss w k previous_frame current_frame of
        Inl e \<Rightarrow> (previous_frame, Some e)
      | Inr l \<Rightarrow>
          (let loss = (case l of None \<Rightarrow> Fin 0 | Some v \<Rightarrow> v)
           in if is_nan loss then (previous_frame, Some AssertionError)
              else
                (case get_trainable_weights k of
                   Inl e \<Rightarrow> (previous_frame, Some e)
                 | Inr weights \<Rightarrow>
                     (case tape_gradient w t loss weights of
                        Inl e \<Rightarrow> (previous_frame, Some e)
                      | Inr loss_gradients \<Rightarrow>
                          if list_ex (\<lambda>g. case g of None \<Rightarrow> False
                                           | Some loss_gradient \<Rightarrow> any_nan loss_gradient)
                               loss_gradients
                          then (previous_frame, Some AssertionError)
                          else
                            (case clip_by_global_norm w loss_gradients 1 of
                               Inl e \<Rightarrow> (previous_frame, Some e)
                             | Inr loss_gradients \<Rightarrow>
                                 (case apply_gradients w (zip loss_gradients weights) of
                                    Some e \<Rightarrow> (previous_frame, Some e)
                                  | None \<Rightarrow>
                                      (let pf = previous_frame\<lparr>combined_loss := Some loss\<rparr>
                                       in (pf, train_retroactive_losses w pf current_frame
                                                 (k_modules k)))))))))"

text \<open>
  \<open>train\<close> yields the previous frame and the tape object that the frame held, both as
  the call leaves them, and the exception if one was raised. The three assertions come
  before the \<^verbatim>\<open>try\<close>; the \<^verbatim>\<open>finally\<close> block leaves the tape, clears the field and marks
  the frame as trained, whether the body raised or not.
\<close>

definition train ::
  "('e, 'd) world \<Rightarrow> StateKernel \<Rightarrow> 'd StateFrame \<Rightarrow> 'd StateFrame \<Rightarrow>
     'd StateFrame \<times> GradientTape option \<times> error option" where
  "train w k previous_frame current_frame =
     (if k_config k = None then (previous_frame, tape previous_frame, Some AssertionError)
      else if trained previous_frame then
        (previous_frame, tape previous_frame, Some AssertionError)
      else
        (case tape previous_frame of
           None \<Rightarrow> (previous_frame, None, Some AssertionError)
         | Some t \<Rightarrow>
             (case train_body w k t previous_frame current_frame of
                (pf, err) \<Rightarrow> (pf\<lparr>tape := None, trained := True\<rparr>, Some (tape_exit t), err))))"

fun collect_state_gradients ::
  "('e, 'd) world \<Rightarrow> 'e \<Rightarrow> 'd StateFrame \<Rightarrow> module_id list \<Rightarrow> tensor list \<Rightarrow>
     error + tensor list" where
  "collect_state_gradients w environment frame [] state_gradients = Inr state_gradients"
| "collect_state_gradients w environment frame (m # ms) state_gradients =
     (if \<not> is_GradientProvider (module_of w m) then
        collect_state_gradients w environment frame ms state_gradients
      else
        (case get_current_state_gradient (module_of w m) environment frame of
           Some state_gradient \<Rightarrow>
             and_then (py_assert (\<not> any_nan state_gradient)) (\<lambda>_.
             collect_state_gradients w environment frame ms
               (state_gradients @ [state_gradient]))
         | None \<Rightarrow> collect_state_gradients w environment frame ms state_gradients))"

text \<open>
  The last part of \<^verbatim>\<open>step\<close> (\<^verbatim>\<open>kernel.py\<close>, lines 110 to 121): the gradients of the
  current state are collected from the gradient providers and, if there are any, their
  sum divided by their number is recorded in the frame.
\<close>

definition combine_state_gradients ::
  "('e, 'd) world \<Rightarrow> StateKernel \<Rightarrow> 'e \<Rightarrow> 'd StateFrame \<Rightarrow> error + 'd StateFrame" where
  "combine_state_gradients w k environment frame =
     and_then (collect_state_gradients w environment frame (k_modules k) []) (\<lambda>state_gradients.
     if state_gradients \<noteq> [] then
       and_then (add_n state_gradients) (\<lambda>total.
       Inr (frame\<lparr>current_state_gradient :=
                    Attr (tensor_div total (Fin (real (length state_gradients))))\<rparr>))
     else Inr frame)"

text \<open>
  \<open>step\<close> returns the previous frame as training left it, with the new frame.
\<close>

definition step ::
  "('e, 'd) world \<Rightarrow> StateKernel \<Rightarrow> 'e \<Rightarrow> 'd StateFrame option \<Rightarrow>
     error + ('d StateFrame option \<times> 'd StateFrame)" where
  "step w k environment previous_frame =
     and_then (new_frame w k previous_frame) (\<lambda>frame.
     and_then (gather_inputs w k environment frame) (\<lambda>frame.
     and_then (case k_input_attention_provider k of
                 None \<Rightarrow> Inl AttributeError
               | Some m \<Rightarrow>
                   Inr (frame\<lparr>attended_input_tensor :=
                                Some (attend_inputs (module_of w m) frame)\<rparr>)) (\<lambda>frame.
     and_then (predict_state w k frame) (\<lambda>frame.
     and_then (case previous_frame of
                 None \<Rightarrow> Inr None
               | Some pf \<Rightarrow>
                   (case train w k pf frame of
                      (pf', t, None) \<Rightarrow> Inr (Some pf')
                    | (pf', t, Some e) \<Rightarrow> Inl e)) (\<lambda>previous_frame'.
     and_then (combine_state_gradients w k environment frame) (\<lambda>frame.
     Inr (previous_frame', frame)))))))"


subsection \<open>Notions of the specification\<close>

text \<open>An entry is a number between \<open>-1e6\<close> and \<open>1e6\<close> (so neither NaN nor an infinity).\<close>

definition finite_in_range :: "fl \<Rightarrow> bool" where
  "finite_in_range x = (case x of Fin a \<Rightarrow> - 1000000 \<le> a \<and> a \<le> 1000000 | _ \<Rightarrow> False)"

text \<open>
  The modules that contribute to the loss: those that return a loss and have a loss
  scale greater than zero, each with its scale and its loss. Their weighted average is
  the sum of the products of scale and loss, divided by the sum of the scales, in the
  arithmetic of the program; it is absent when nothing contributes.
\<close>

definition contributions ::
  "('e, 'd) world \<Rightarrow> 'd StateFrame \<Rightarrow> 'd StateFrame \<Rightarrow> module_id list \<Rightarrow> (real \<times> fl) list" where
  "contributions w p c ms =
     List.map_filter
       (\<lambda>m. case module_get_loss (module_of w m) p c of
               Some l \<Rightarrow> if loss_scale (module_of w m) > 0
                         then Some (loss_scale (module_of w m), l) else None
             | None \<Rightarrow> None) ms"

definition total_scale_of :: "real list \<Rightarrow> fl" where
  "total_scale_of ss = foldl py_add (Fin 0) (map Fin ss)"

definition weighted_average :: "(real \<times> fl) list \<Rightarrow> fl option" where
  "weighted_average cs =
     (if cs = [] then None
      else Some (fl_div (add_n_scalar (map (\<lambda>(s, l). fl_scale s l) cs))
                        (to_float32 (total_scale_of (map fst cs)))))"

text \<open>
  A real number is a \<^verbatim>\<open>float32\<close> (a \<^verbatim>\<open>float64\<close>) if rounding leaves it as it is. The
  sums of a list of numbers, taken from left to right from \<open>acc\<close>, are exact if none
  of them is changed by the rounding \<open>rnd\<close>.
\<close>

definition exact32 :: "real \<Rightarrow> bool" where
  "exact32 x \<longleftrightarrow> round32 x = Fin x"

definition exact64 :: "real \<Rightarrow> bool" where
  "exact64 x \<longleftrightarrow> round64 x = Fin x"

fun exact_sums :: "(real \<Rightarrow> fl) \<Rightarrow> real \<Rightarrow> real list \<Rightarrow> bool" where
  "exact_sums rnd acc [] = True"
| "exact_sums rnd acc (x # xs) = (rnd (acc + x) = Fin (acc + x) \<and> exact_sums rnd (acc + x) xs)"

text \<open>
  No operation of the weighted average of the finite losses \<open>x\<close> with scales \<open>s\<close>
  rounds: the conversion of a scale to \<^verbatim>\<open>float32\<close>, the products, their sums, the sums of
  the scales, the conversion of the total scale, and the quotient.
\<close>

definition average_is_exact :: "(real \<times> real) list \<Rightarrow> bool" where
  "average_is_exact rs =
     (list_all (\<lambda>(s, x). exact32 s \<and> exact32 (s * x)) rs \<and>
      exact_sums round32 0 (map (\<lambda>(s, x). s * x) rs) \<and>
      exact_sums round64 0 (map fst rs) \<and>
      exact32 (sum_list (map fst rs)) \<and>
      exact32 (sum_list (map (\<lambda>(s, x). s * x) rs) / sum_list (map fst rs)))"

text \<open>
  The gradients of the current state that the gradient providers return (those that are
  not \<^verbatim>\<open>None\<close>), and the arithmetic mean of a list of tensors: entry by entry, the sum
  divided by the number of tensors, in the arithmetic of the program.
\<close>

definition provided_gradients ::
  "('e, 'd) world \<Rightarrow> 'e \<Rightarrow> 'd StateFrame \<Rightarrow> module_id list \<Rightarrow> tensor list" where
  "provided_gradients w environment frame ms =
     List.map_filter
       (\<lambda>m. if is_GradientProvider (module_of w m)
             then get_current_state_gradient (module_of w m) environment frame
             else None) ms"

definition arithmetic_mean :: "tensor list \<Rightarrow> tensor" where
  "arithmetic_mean gs =
     map (\<lambda>i. fl_div (add_n_scalar (map (\<lambda>g. g ! i) gs)) (round32 (real (length gs))))
       [0..<length (hd gs)]"

text \<open>The multiples \<open>1 * a\<close>, ..., \<open>n * a\<close> of a finite entry \<open>a\<close> are all \<^verbatim>\<open>float32\<close>.\<close>

fun exact_multiples :: "nat \<Rightarrow> real \<Rightarrow> bool" where
  "exact_multiples 0 a = True"
| "exact_multiples (Suc n) a = (exact32 (real (Suc n) * a) \<and> exact_multiples n a)"

definition multiples_exact :: "nat \<Rightarrow> fl \<Rightarrow> bool" where
  "multiples_exact n x = (case x of Fin a \<Rightarrow> exact_multiples n a | _ \<Rightarrow> True)"

section \<open>Example instances\<close>

text \<open>Concrete decisions, a policy and agents on which the theorems below are evaluated.\<close>

definition example_decision :: "int \<Rightarrow> real \<Rightarrow> real option \<Rightarrow> (unit, nat) ActionDecision" where
  "example_decision n p r =
     \<lparr>state_input = (), decision_step = n, selected_action = 0,
      selected_q_value_prediction = p, exploit_q_value_prediction = p,
      exploit_confidence = 1, reward = r, q_value_target = None,
      q_value_target_confidence = None\<rparr>"

definition example_policy :: "(unit, nat, real) action_policy" where
  "example_policy =
     \<lparr>policy_choose_action = (\<lambda>s n. example_decision n 2 None),
      policy_get_loss = (\<lambda>d. 0)\<rparr>"

text \<open>
  A stabilized agent with constant discount \<open>d\<close> that has made one decision and
  received the reward \<open>r\<close> for it.
\<close>

definition example_agent :: "real \<Rightarrow> real \<Rightarrow> (unit, nat) TDAgent" where
  "example_agent d r =
     \<lparr>max_observable_reward = Some r, min_observable_reward = Some r, episodes = 0,
      total_steps = 1, discount = Constant d, stabilize = True,
      previous_decision = Some (example_decision 0 0 (Some r)), current_decision = None\<rparr>"

text \<open>The agent \<open>example_agent (1/2) 5\<close> after \<^verbatim>\<open>reset\<close>.\<close>

definition example_agent_after_reset :: "(unit, nat) TDAgent" where
  "example_agent_after_reset =
     \<lparr>max_observable_reward = Some 5, min_observable_reward = Some 0, episodes = 1,
      total_steps = 1, discount = Constant (1/2), stabilize = True,
      previous_decision = None, current_decision = None\<rparr>"

text \<open>
  A world of four modules: an attention provider (0) that registers itself and sets the
  default input, a state prediction provider (1) with one trainable weight, whose
  prediction has an entry above the limit and an infinite one, and two modules (2, 3)
  with a loss and a gradient of the current state. The gradient of a loss is 1/2 for
  every entry of a weight, which clipping to the norm 1 leaves as it is. The optimizer
  refuses a list without any gradient, as a Keras optimizer does. \<open>example_new_kernel\<close> holds the modules before \<^verbatim>\<open>configure\<close>,
  \<open>example_kernel\<close> after it. \<open>example_frame ps\<close> is a frame as a caller can build
  it, with the previous state \<open>ps\<close>, an open tape, the inputs and a predicted state.
\<close>

definition inert_module :: "(unit, unit) StateKernelModule" where
  "inert_module =
     \<lparr>loss_scale = 0, module_configure = Inr, module_get_trainable_weights = [],
      get_new_frame_data = (\<lambda>f p. None), module_get_loss = (\<lambda>p c. None),
      is_InputProvider = False, get_input = (\<lambda>e f. None), attend_inputs = (\<lambda>f. []),
      module_predict_state = (\<lambda>f. None), is_RetroactiveLossProvider = False,
      train_retroactive_loss = (\<lambda>p c. None),
      is_GradientProvider = False, get_current_state_gradient = (\<lambda>e f. None)\<rparr>"

definition example_attention :: "(unit, unit) StateKernelModule" where
  "example_attention =
     inert_module
       \<lparr>module_configure :=
          (\<lambda>k. Inr (set_default_input (set_input_attention_provider k 0)
                      (Tensor [Fin 0, Fin 0]))),
        attend_inputs := (\<lambda>f. [Fin 0, Fin 0])\<rparr>"

definition example_prediction :: "(unit, unit) StateKernelModule" where
  "example_prediction =
     inert_module
       \<lparr>module_configure := (\<lambda>k. set_state_prediction_provider k 1),
        module_get_trainable_weights := [Variable ''w'' [Fin 0]],
        module_predict_state := (\<lambda>f. Some [Fin 2000000, NInf, Fin (1/2)])\<rparr>"

definition example_provider :: "real \<Rightarrow> real \<Rightarrow> tensor \<Rightarrow> (unit, unit) StateKernelModule" where
  "example_provider s l g =
     inert_module
       \<lparr>loss_scale := s, module_get_loss := (\<lambda>p c. Some (Fin l)),
        is_GradientProvider := True, get_current_state_gradient := (\<lambda>e f. Some g)\<rparr>"

definition example_world :: "(unit, unit) world" where
  "example_world =
     \<lparr>module_of =
        (\<lambda>m. if m = 0 then example_attention
             else if m = 1 then example_prediction
             else if m = 2 then example_provider 1 2 [Fin 1, Fin 2, Fin 3]
             else if m = 3 then example_provider 3 6 [Fin 3, Fin 4, Fin 5]
             else inert_module),
      tape_gradient = (\<lambda>t l ws. Inr (map (\<lambda>v. Some (map (\<lambda>x. Fin (1/2)) (value_of v))) ws)),
      clip_by_global_norm = (\<lambda>gs c. Inr gs),
      apply_gradients =
        (\<lambda>gvs. if list_all (\<lambda>gv. fst gv = None) gvs then Some ValueError else None),
      new_StandardInputAttentionProvider = 4,
      new_StandardStatePredictionProvider = 5\<rparr>"

definition example_config :: StateKernelConfig where
  "example_config =
     \<lparr>state_width = 3, input_width = 2, future_gradient_coefficient = 1/2,
      stabilized_gradient = True\<rparr>"

definition example_new_kernel :: StateKernel where
  "example_new_kernel =
     \<lparr>k_config = None, k_initial_state = Some (Tensor [Fin 0, Fin 0, Fin 0]),
      k_initial_state_is_trainable = False, k_default_input = None,
      k_default_input_is_trainable = False, k_modules = [0, 1, 2, 3],
      k_input_attention_provider = None, k_state_prediction_provider = None,
      k_retroactive_gradient_provider = None, k_trainable_weights = None\<rparr>"

definition example_kernel :: StateKernel where
  "example_kernel =
     \<lparr>k_config = Some example_config, k_initial_state = Some (Tensor [Fin 0, Fin 0, Fin 0]),
      k_initial_state_is_trainable = False, k_default_input = Some (Tensor [Fin 0, Fin 0]),
      k_default_input_is_trainable = False, k_modules = [0, 1, 2, 3],
      k_input_attention_provider = Some 0, k_state_prediction_provider = Some 1,
      k_retroactive_gradient_provider = None,
      k_trainable_weights = Some [Variable ''w'' [Fin 0]]\<rparr>"

definition example_tape :: GradientTape where
  "example_tape =
     \<lparr>persistent = True, watch_accessed_variables = False, recording = True,
      watched = [Variable ''w'' [Fin 0]]\<rparr>"

definition example_frame :: "tf_value \<Rightarrow> unit StateFrame" where
  "example_frame ps =
     \<lparr>stream_id = ''stream'', previous_state = ps, tape = Some example_tape,
      clock_ticks = 0, input_samples = None,
      attended_input_tensor = Some [Fin 0, Fin 0],
      current_state = Some [Fin 1000000, Fin (- 1000000), Fin (1/2)],
      combined_loss = None, trained = False, module_data = Map.empty,
      input_tensors = Attr (Some [Tensor [Fin 0, Fin 0]]),
      current_state_gradient = Missing\<rparr>"

text \<open>
  The \<^verbatim>\<open>float32\<close> nearest to 0.9, and a world in which every module beside the two
  providers has the loss scale 3, that number as its loss and a gradient with that
  number as its entry; a kernel with one such module and a kernel with three.
\<close>

definition float32_nine_tenths :: real where
  "float32_nine_tenths = 7549747 / 8388608"

definition rounding_world :: "(unit, unit) world" where
  "rounding_world =
     example_world
       \<lparr>module_of :=
          (\<lambda>m. if m = 0 then example_attention
               else if m = 1 then example_prediction
               else example_provider 3 float32_nine_tenths [Fin float32_nine_tenths])\<rparr>"

definition rounding_kernel_one :: StateKernel where
  "rounding_kernel_one = example_kernel\<lparr>k_modules := [0, 1, 2]\<rparr>"

definition rounding_kernel_three :: StateKernel where
  "rounding_kernel_three = example_kernel\<lparr>k_modules := [0, 1, 2, 3, 4]\<rparr>"

section \<open>Properties of the TD agent\<close>

subsection \<open>Fields that the operations leave alone\<close>

lemma clamp_bounds:
  "clamp p lo hi =
     (let p1 = (case lo of Some l \<Rightarrow> max p l | None \<Rightarrow> p)
      in (case hi of Some h \<Rightarrow> min p1 h | None \<Rightarrow> p1))"
  by (cases lo; cases hi) simp_all

lemma clamp_in_bounds:
  "lo \<le> hi \<Longrightarrow> lo \<le> clamp p (Some lo) (Some hi) \<and> clamp p (Some lo) (Some hi) \<le> hi"
  by simp

lemma update_previous_decision_fields:
  assumes "update_previous_decision a = Inr a'"
  shows "max_observable_reward a' = max_observable_reward a"
    and "min_observable_reward a' = min_observable_reward a"
    and "stabilize a' = stabilize a"
    and "current_decision a' = current_decision a"
  using assms
  by (auto simp: update_previous_decision_def divide_by_def Let_def
           split: option.splits if_splits sum.splits)

lemma reset_bounds:
  assumes "reset pol a = Inr (a', l)"
  shows "stabilize a' = stabilize a"
    and "max_observable_reward a' =
           (if stabilize a
            then Some (case max_observable_reward a of None \<Rightarrow> 0 | Some m \<Rightarrow> max 0 m)
            else max_observable_reward a)"
    and "min_observable_reward a' =
           (if stabilize a
            then Some (case min_observable_reward a of None \<Rightarrow> 0 | Some m \<Rightarrow> min 0 m)
            else min_observable_reward a)"
proof -
  let ?a1 = "a\<lparr>episodes := episodes a + 1\<rparr>"
  from assms obtain a2 where u: "update_previous_decision ?a1 = Inr a2"
    by (auto simp: reset_def Let_def split: sum.splits)
  have f: "max_observable_reward a2 = max_observable_reward a"
    "min_observable_reward a2 = min_observable_reward a" "stabilize a2 = stabilize a"
    using update_previous_decision_fields(1,2,3)[OF u] by simp_all
  from assms u f show "stabilize a' = stabilize a"
    by (auto simp: reset_def Let_def close_previous_decision_def split: option.splits if_splits)
  from assms u f show "max_observable_reward a' =
           (if stabilize a
            then Some (case max_observable_reward a of None \<Rightarrow> 0 | Some m \<Rightarrow> max 0 m)
            else max_observable_reward a)"
    by (auto simp: reset_def Let_def close_previous_decision_def split: option.splits if_splits)
  from assms u f show "min_observable_reward a' =
           (if stabilize a
            then Some (case min_observable_reward a of None \<Rightarrow> 0 | Some m \<Rightarrow> min 0 m)
            else min_observable_reward a)"
    by (auto simp: reset_def Let_def close_previous_decision_def split: option.splits if_splits)
qed

lemma accept_reward_bounds:
  assumes "accept_reward pol a r = Inr (a', l)"
  shows "stabilize a' = stabilize a"
    and "max_observable_reward a' =
           (if stabilize a
            then Some (case max_observable_reward a of None \<Rightarrow> r | Some m \<Rightarrow> max r m)
            else max_observable_reward a)"
    and "min_observable_reward a' =
           (if stabilize a
            then Some (case min_observable_reward a of None \<Rightarrow> r | Some m \<Rightarrow> min r m)
            else min_observable_reward a)"
  using assms
  by (auto simp: accept_reward_def Let_def close_previous_decision_def
           split: option.splits if_splits)

lemma choose_action_bounds:
  assumes "choose_action pol a s = Inr (a', act)"
  shows "stabilize a' = stabilize a"
    and "max_observable_reward a' = max_observable_reward a"
    and "min_observable_reward a' = min_observable_reward a"
  using assms
  by (auto simp: choose_action_def Let_def
           split: if_splits sum.splits dest: update_previous_decision_fields(1,2,3))

text \<open>Every call keeps a reward range that contains zero.\<close>

lemma call_agent_zero_in_bounds:
  assumes "zero_in_bounds a" and "call_agent pol a c = Inr a'"
  shows "zero_in_bounds a'"
proof (cases c)
  case (ChooseAction s)
  with assms(2) obtain act where "choose_action pol a s = Inr (a', act)"
    by (cases "choose_action pol a s") auto
  from choose_action_bounds(2,3)[OF this] assms(1) show ?thesis
    by (simp add: zero_in_bounds_def)
next
  case (AcceptReward r)
  with assms(2) obtain l where "accept_reward pol a r = Inr (a', l)"
    by (cases "accept_reward pol a r") auto
  from accept_reward_bounds(2,3)[OF this] assms(1) show ?thesis
    by (auto simp: zero_in_bounds_def split: option.splits)
next
  case Reset
  with assms(2) obtain l where "reset pol a = Inr (a', l)"
    by (cases "reset pol a") auto
  from reset_bounds(2,3)[OF this] assms(1) show ?thesis
    by (auto simp: zero_in_bounds_def split: option.splits)
qed

lemma run_zero_in_bounds:
  "zero_in_bounds a \<Longrightarrow> run pol a cs = Inr a' \<Longrightarrow> zero_in_bounds a'"
proof (induction cs arbitrary: a)
  case Nil
  then show ?case by simp
next
  case (Cons c cs)
  from Cons.prems(2) obtain a1
    where s: "call_agent pol a c = Inr a1" and r: "run pol a1 cs = Inr a'"
    by (auto split: sum.splits)
  from Cons.prems(1) s have "zero_in_bounds a1"
    by (rule call_agent_zero_in_bounds)
  then show ?case using r by (rule Cons.IH)
qed

subsection \<open>The TD target\<close>

text \<open>
  Claim C2. When the previous decision holds the reward \<open>r\<close> and is not yet closed, and
  the current decision holds the next prediction \<open>p\<close> (and no reward yet),
  \<^verbatim>\<open>_update_previous_decision\<close> sets the target of the previous decision to
  \<open>(r + d * clamp p min_r max_r) / (1 + d)\<close> if the agent stabilizes, where each bound
  clamps only if it has been observed, and to \<open>r + d * p\<close> if it does not; \<open>d\<close> is the
  discount at the time of the call, and \<open>1 + d\<close> is not zero where it divides.
\<close>

theorem td_target_with_next_decision:
  assumes "previous_decision a = Some prev" and "reward prev = Some r"
    and "q_value_target prev = None"
    and "current_decision a = Some cur" and "reward cur = None"
    and "exploit_q_value_prediction cur = p" and "get_discount a = d"
    and "stabilize a \<longrightarrow> 1 + d \<noteq> 0"
  shows "update_previous_decision a =
           Inr (a\<lparr>previous_decision := Some (prev
                  \<lparr>q_value_target :=
                     Some (if stabilize a
                           then (r + d * clamp p (min_observable_reward a)
                                             (max_observable_reward a)) / (1 + d)
                           else r + d * p),
                   q_value_target_confidence := Some (exploit_confidence cur)\<rparr>)\<rparr>)"
  using assms
  by (simp add: update_previous_decision_def divide_by_def clamp_bounds Let_def)

text \<open>
  The example of the specification: \<open>r = 1\<close>, \<open>d = 0.9\<close>, \<open>p = 2\<close> clamped to the
  observed maximum 1 gives the target \<open>(1 + 0.9 * 1) / 1.9 = 1\<close>.
\<close>

theorem td_target_with_next_decision_witness:
  "update_previous_decision
     ((example_agent (9/10) 1)\<lparr>current_decision := Some (example_decision 1 2 None)\<rparr>) =
   Inr ((example_agent (9/10) 1)
         \<lparr>current_decision := Some (example_decision 1 2 None),
          previous_decision := Some ((example_decision 0 0 (Some 1))
            \<lparr>q_value_target := Some 1, q_value_target_confidence := Some 1\<rparr>)\<rparr>)"
  using td_target_with_next_decision
          [of "(example_agent (9/10) 1)\<lparr>current_decision := Some (example_decision 1 2 None)\<rparr>"
              "example_decision 0 0 (Some 1)" 1 "example_decision 1 2 None" 2 "9/10"]
  by (simp add: example_agent_def example_decision_def get_discount_def)

text \<open>
  Claim C3. When the previous decision holds the reward \<open>r\<close> and is not yet closed, and
  there is no current decision, \<^verbatim>\<open>_update_previous_decision\<close> sets its target to
  \<open>r / (1 + d)\<close> if the agent stabilizes and to \<open>r\<close> if it does not; and \<^verbatim>\<open>reset\<close>, which
  reaches this case, hands the decision with that target (for the discount after the
  episode count has gone up) to the policy for its loss and empties both decision slots.
\<close>

theorem td_target_end_of_episode:
  assumes "previous_decision a = Some prev" and "reward prev = Some r"
    and "q_value_target prev = None" and "current_decision a = None"
    and "stabilize a \<longrightarrow> 1 + get_discount a \<noteq> 0"
    and "stabilize a \<longrightarrow> 1 + get_discount (a\<lparr>episodes := episodes a + 1\<rparr>) \<noteq> 0"
  shows "update_previous_decision a =
           Inr (a\<lparr>previous_decision := Some (prev
                  \<lparr>q_value_target :=
                     Some (if stabilize a then r / (1 + get_discount a) else r),
                   q_value_target_confidence := Some 1\<rparr>)\<rparr>)
         \<and> (\<exists>a'. reset pol a =
                 Inr (a', Some (policy_get_loss pol (prev
                   \<lparr>q_value_target :=
                      Some (if stabilize a
                            then r / (1 + get_discount (a\<lparr>episodes := episodes a + 1\<rparr>))
                            else r),
                    q_value_target_confidence := Some 1\<rparr>)))
               \<and> previous_decision a' = None \<and> current_decision a' = None)"
  using assms
  by (simp add: update_previous_decision_def reset_def close_previous_decision_def
        divide_by_def Let_def split: option.splits)

text \<open>With stabilization, \<open>d = 0.5\<close> and \<open>r = 0\<close> the target is 0.\<close>

theorem td_target_end_of_episode_witness:
  "stabilize (example_agent (1/2) 0) \<and> get_discount (example_agent (1/2) 0) = 1/2 \<and>
   update_previous_decision (example_agent (1/2) 0) =
     Inr ((example_agent (1/2) 0)
           \<lparr>previous_decision := Some ((example_decision 0 0 (Some 0))
              \<lparr>q_value_target := Some 0, q_value_target_confidence := Some 1\<rparr>)\<rparr>)"
  using td_target_end_of_episode
          [of "example_agent (1/2) 0" "example_decision 0 0 (Some 0)" 0 example_policy]
  by (simp add: example_agent_def example_decision_def get_discount_def)

subsection \<open>The pending decision\<close>

text \<open>
  Claim C8. \<^verbatim>\<open>choose_action\<close> requires that no current decision exists: with a decision
  pending it fails with an assertion error, and so does a second \<^verbatim>\<open>choose_action\<close> that
  follows a successful one without \<^verbatim>\<open>accept_reward\<close> or \<^verbatim>\<open>reset\<close> in between.
\<close>

theorem choose_action_pending:
  "(current_decision a \<noteq> None \<longrightarrow> choose_action pol a s = Inl AssertionError) \<and>
   (\<forall>a' act. choose_action pol a s = Inr (a', act) \<longrightarrow>
       choose_action pol a' s' = Inl AssertionError)"
proof (intro conjI allI impI)
  assume "current_decision a \<noteq> None"
  then show "choose_action pol a s = Inl AssertionError"
    by (simp add: choose_action_def)
next
  fix a' act
  assume ok: "choose_action pol a s = Inr (a', act)"
  then obtain n where
    "update_previous_decision (a\<lparr>current_decision := Some (policy_choose_action pol s n)\<rparr>)
       = Inr a'"
    by (auto simp: choose_action_def Let_def split: if_splits sum.splits)
  then have "current_decision a' = Some (policy_choose_action pol s n)"
    by (simp add: update_previous_decision_fields(4))
  then show "choose_action pol a' s' = Inl AssertionError"
    by (simp add: choose_action_def)
qed

theorem choose_action_pending_witness:
  "choose_action example_policy (example_agent (9/10) 1) () =
     Inr ((example_agent (9/10) 1)
            \<lparr>current_decision := Some (example_decision 1 2 None),
             previous_decision := Some ((example_decision 0 0 (Some 1))
               \<lparr>q_value_target := Some 1, q_value_target_confidence := Some 1\<rparr>)\<rparr>, 0)
   \<and> choose_action example_policy
       ((example_agent (9/10) 1)
            \<lparr>current_decision := Some (example_decision 1 2 None),
             previous_decision := Some ((example_decision 0 0 (Some 1))
               \<lparr>q_value_target := Some 1, q_value_target_confidence := Some 1\<rparr>)\<rparr>) () =
     Inl AssertionError"
proof -
  have first: "choose_action example_policy (example_agent (9/10) 1) () =
     Inr ((example_agent (9/10) 1)
            \<lparr>current_decision := Some (example_decision 1 2 None),
             previous_decision := Some ((example_decision 0 0 (Some 1))
               \<lparr>q_value_target := Some 1, q_value_target_confidence := Some 1\<rparr>)\<rparr>, 0)"
    by (simp add: choose_action_def example_policy_def example_agent_def example_decision_def
          update_previous_decision_def Let_def get_discount_def divide_by_def)
  from choose_action_pending [of "example_agent (9/10) 1" example_policy "()" "()"] first
  show ?thesis by blast
qed

subsection \<open>The reward bounds after a reset\<close>

text \<open>
  Claim C10. A \<^verbatim>\<open>reset\<close> of a stabilized agent that returns has folded the reward 0 into
  both running bounds: each bound is set, the minimum is at most 0 and the maximum at
  least 0, and this stays so after every later sequence of calls, so every later clamp
  of a prediction uses a range that contains zero.
\<close>

theorem reset_folds_zero_into_bounds:
  assumes "stabilize a" and "reset pol a = Inr (a', l)"
  shows "max_observable_reward a' =
           Some (case max_observable_reward a of None \<Rightarrow> 0 | Some m \<Rightarrow> max 0 m)
       \<and> min_observable_reward a' =
           Some (case min_observable_reward a of None \<Rightarrow> 0 | Some m \<Rightarrow> min 0 m)
       \<and> zero_in_bounds a'
       \<and> (\<forall>cs a''. run pol a' cs = Inr a'' \<longrightarrow> zero_in_bounds a'')"
proof -
  from reset_bounds(2,3)[OF assms(2)] assms(1)
  have b: "max_observable_reward a' =
           Some (case max_observable_reward a of None \<Rightarrow> 0 | Some m \<Rightarrow> max 0 m)"
     "min_observable_reward a' =
           Some (case min_observable_reward a of None \<Rightarrow> 0 | Some m \<Rightarrow> min 0 m)"
    by simp_all
  then have z: "zero_in_bounds a'"
    by (auto simp: zero_in_bounds_def split: option.splits)
  with b show ?thesis
    by (blast intro: run_zero_in_bounds)
qed

text \<open>An agent whose only reward was 5: after the reset its range is from 0 to 5.\<close>

theorem reset_folds_zero_into_bounds_witness:
  "stabilize (example_agent (1/2) 5) \<and>
   min_observable_reward (example_agent (1/2) 5) = Some 5 \<and>
   reset example_policy (example_agent (1/2) 5) = Inr (example_agent_after_reset, Some 0) \<and>
   min_observable_reward example_agent_after_reset = Some 0 \<and>
   max_observable_reward example_agent_after_reset = Some 5 \<and>
   zero_in_bounds example_agent_after_reset"
proof -
  have s: "stabilize (example_agent (1/2) 5)"
    by (simp add: example_agent_def)
  have r: "reset example_policy (example_agent (1/2) 5) = Inr (example_agent_after_reset, Some 0)"
    by (simp add: reset_def example_agent_def example_agent_after_reset_def example_policy_def
          example_decision_def update_previous_decision_def close_previous_decision_def
          get_discount_def divide_by_def Let_def)
  from reset_folds_zero_into_bounds [OF s r] s r show ?thesis
    by (simp add: example_agent_def example_agent_after_reset_def)
qed

section \<open>Properties of the state kernel\<close>

subsection \<open>Sequencing\<close>

lemma and_then_simps [simp]:
  "and_then (Inl e) f = Inl e"
  "and_then (Inr v) f = f v"
  by (simp_all add: and_then_def)

lemma py_assert_simps [simp]:
  "py_assert True = Inr ()"
  "py_assert False = Inl AssertionError"
  by (simp_all add: py_assert_def)

lemma and_then_eq_Inr:
  "and_then r f = Inr y \<longleftrightarrow> (\<exists>v. r = Inr v \<and> f v = Inr y)"
  by (cases r) simp_all

lemma py_assert_eq_Inr [simp]: "py_assert b = Inr u \<longleftrightarrow> b"
  by (cases b) simp_all

lemma recompute_trainable_weights_config:
  assumes "recompute_trainable_weights w k = Inr k'"
  shows "k_config k' = k_config k" and "k_config k \<noteq> None"
proof -
  from assms show "k_config k \<noteq> None"
    by (cases "k_config k = None") (simp_all add: recompute_trainable_weights_def)
  from assms obtain ws where "k' = k\<lparr>k_trainable_weights := Some ws\<rparr>"
    unfolding recompute_trainable_weights_def and_then_eq_Inr by blast
  then show "k_config k' = k_config k"
    by simp
qed

subsection \<open>Rounding\<close>

lemma bit_length_numeral [simp]:
  "bit_length 0 = 0"
  "bit_length (numeral n) = Suc (bit_length (numeral n div 2))"
  "bit_length 1 = 1"
  "bit_length (Suc 0) = 1"
  by (simp_all add: bit_length.simps[of 0] bit_length.simps[of "numeral n"]
        bit_length.simps[of 1] bit_length.simps[of "Suc 0"])

lemmas round_defs =
  round32_def round64_def round_to_format_def binary_exponent_def two_to_def
  round_half_even_def Let_def

lemma bit_length_pos: "0 < n \<Longrightarrow> bit_length n \<noteq> 0"
  by (subst bit_length.simps) simp

lemma bit_length_bounds:
  "0 < n \<Longrightarrow> 2 ^ (bit_length n - 1) \<le> n \<and> n < 2 ^ bit_length n"
proof (induction n rule: bit_length.induct)
  case (1 n)
  from "1.prems" have n0: "n \<noteq> 0" by simp
  have bl: "bit_length n = Suc (bit_length (n div 2))"
    using n0 by (simp add: bit_length.simps[of n])
  show ?case
  proof (cases "n div 2 = 0")
    case True
    then have "bit_length (n div 2) = 0" by simp
    moreover from True "1.prems" have "n = 1"
      by (simp add: div_eq_0_iff)
    ultimately show ?thesis
      by (simp add: bl)
  next
    case False
    then have pos: "0 < n div 2" by simp
    from "1.IH"[OF n0 pos]
    have ih: "2 ^ (bit_length (n div 2) - 1) \<le> n div 2" "n div 2 < 2 ^ bit_length (n div 2)"
      by simp_all
    from pos have "bit_length (n div 2) \<noteq> 0"
      by (rule bit_length_pos)
    then obtain b where b: "bit_length (n div 2) = Suc b"
      by (cases "bit_length (n div 2)") auto
    have split: "n = 2 * (n div 2) + n mod 2"
      by simp
    from ih(1) b have "2 * 2 ^ b \<le> 2 * (n div 2)" by simp
    also have "\<dots> \<le> n" by simp
    finally have lo: "2 ^ (bit_length n - 1) \<le> n"
      by (simp add: bl b)
    from ih(2) have "n div 2 + 1 \<le> 2 ^ bit_length (n div 2)" by simp
    then have "2 * (n div 2) + 2 \<le> 2 * 2 ^ bit_length (n div 2)" by simp
    moreover have "n < 2 * (n div 2) + 2"
      using split by linarith
    ultimately have hi: "n < 2 ^ bit_length n"
      by (simp add: bl)
    from lo hi show ?thesis ..
  qed
qed

lemma two_to_nonneg: "two_to (int n) = 2 ^ n"
  by (simp add: two_to_def)

lemma two_to_neg: "two_to (- int n) = 1 / 2 ^ n"
  by (cases n) (simp_all add: two_to_def nat_add_distrib)

lemma binary_exponent_bounds:
  assumes "0 < x"
  shows "two_to (binary_exponent x) \<le> x \<and> x < two_to (binary_exponent x + 1)"
proof (cases "1 \<le> x")
  case True
  define n where "n = nat \<lfloor>x\<rfloor>"
  from True have n: "0 < n"
    by (simp add: n_def)
  from True have lo: "real n \<le> x"
    by (simp add: n_def)
  from True have hi: "x < real n + 1"
    unfolding n_def by linarith
  from bit_length_bounds[OF n] have b: "2 ^ (bit_length n - 1) \<le> n" "n < 2 ^ bit_length n"
    by simp_all
  from n have "bit_length n \<noteq> 0"
    by (rule bit_length_pos)
  then obtain b' where b': "bit_length n = Suc b'"
    by (cases "bit_length n") auto
  have e: "binary_exponent x = int b'"
    using True by (simp add: binary_exponent_def n_def[symmetric] b')
  from b(1) have "(2::real) ^ b' \<le> real n"
    unfolding b' by (metis diff_Suc_1 of_nat_le_iff of_nat_numeral of_nat_power)
  then have "(2::real) ^ b' \<le> x"
    using lo by (rule order_trans)
  then have 1: "two_to (binary_exponent x) \<le> x"
    unfolding e two_to_nonneg .
  from b(2) have "n + 1 \<le> 2 ^ Suc b'"
    unfolding b' by simp
  then have "real (n + 1) \<le> 2 ^ Suc b'"
    by (metis of_nat_le_iff of_nat_numeral of_nat_power)
  then have "real n + 1 \<le> 2 ^ Suc b'"
    by simp
  with hi have "x < 2 ^ Suc b'"
    by (rule less_le_trans)
  moreover have "binary_exponent x + 1 = int (Suc b')"
    by (simp add: e)
  ultimately have 2: "x < two_to (binary_exponent x + 1)"
    by (simp only: two_to_nonneg)
  from 1 2 show ?thesis ..
next
  case False
  define y where "y = 1 / x"
  define m where "m = nat \<lceil>y\<rceil>"
  from False assms have y1: "1 < y"
    by (simp add: y_def)
  then have m2: "2 \<le> m"
    unfolding m_def by linarith
  have ym1: "y \<le> real m"
    using y1 unfolding m_def by linarith
  have ym2: "real m - 1 < y"
    using y1 unfolding m_def by linarith
  from m2 have pos: "0 < m - 1" by simp
  from bit_length_bounds[OF pos]
  have b: "2 ^ (bit_length (m - 1) - 1) \<le> m - 1" "m - 1 < 2 ^ bit_length (m - 1)"
    by simp_all
  from pos have "bit_length (m - 1) \<noteq> 0"
    by (rule bit_length_pos)
  then obtain b' where b': "bit_length (m - 1) = Suc b'"
    by (cases "bit_length (m - 1)") auto
  have "binary_exponent x = - int (bit_length (m - 1))"
    using False unfolding binary_exponent_def m_def y_def by simp
  then have e: "binary_exponent x = - int (Suc b')"
    unfolding b' .
  from b(2) m2 have "m \<le> 2 ^ Suc b'"
    unfolding b' by simp
  then have "real m \<le> 2 ^ Suc b'"
    by (metis of_nat_le_iff of_nat_numeral of_nat_power)
  with ym1 have yhi: "y \<le> 2 ^ Suc b'"
    by (rule order_trans)
  from b(1) have "2 ^ b' \<le> m - 1"
    unfolding b' by simp
  then have "(2::real) ^ b' \<le> real (m - 1)"
    by (metis of_nat_le_iff of_nat_numeral of_nat_power)
  moreover have "real (m - 1) = real m - 1"
    using m2 by simp
  ultimately have "(2::real) ^ b' \<le> real m - 1"
    by simp
  then have ylo: "2 ^ b' < y"
    using ym2 by (rule le_less_trans)
  have x: "x = 1 / y"
    by (simp add: y_def)
  have ypos: "0 < y"
    using y1 by simp
  have "1 / 2 ^ Suc b' \<le> 1 / y"
    using yhi ypos by (intro divide_left_mono) simp_all
  then have 1: "two_to (binary_exponent x) \<le> x"
    unfolding e two_to_neg x[symmetric] .
  have "1 / y < 1 / 2 ^ b'"
    using ylo ypos by (intro divide_strict_left_mono) simp_all
  moreover have "binary_exponent x + 1 = - int b'"
    by (simp add: e)
  ultimately have 2: "x < two_to (binary_exponent x + 1)"
    unfolding x[symmetric] by (simp only: two_to_neg)
  from 1 2 show ?thesis ..
qed

subsection \<open>Exact sums\<close>

lemma fl_add_Fin [simp]: "fl_add (Fin a) (Fin b) = round32 (a + b)"
  by (simp add: fl_add_def)

lemma py_add_Fin [simp]: "py_add (Fin a) (Fin b) = round64 (a + b)"
  by (simp add: py_add_def)

lemma foldl_exact_sums:
  "exact_sums rnd acc xs \<Longrightarrow>
   foldl (ieee_add rnd) (Fin acc) (map Fin xs) = Fin (acc + sum_list xs)"
proof (induction xs arbitrary: acc)
  case Nil
  then show ?case by simp
next
  case (Cons x xs)
  from Cons.prems have r: "rnd (acc + x) = Fin (acc + x)" and e: "exact_sums rnd (acc + x) xs"
    by simp_all
  from Cons.IH[OF e] r show ?case
    by (simp add: add.assoc)
qed

lemma add_n_scalar_foldl: "add_n_scalar (x # xs) = foldl fl_add x xs"
  by (induction xs arbitrary: x) simp_all

lemma add_n_scalar_exact:
  assumes "xs \<noteq> []" and "exact_sums round32 0 xs"
  shows "add_n_scalar (map Fin xs) = Fin (sum_list xs)"
proof -
  from assms(1) obtain y ys where xs: "xs = y # ys"
    by (cases xs) auto
  from assms(2) have "exact_sums round32 y ys"
    by (simp add: xs)
  from foldl_exact_sums[OF this] show ?thesis
    by (simp add: xs add_n_scalar_foldl fl_add_def)
qed

lemma total_scale_of_exact:
  "exact_sums round64 0 ss \<Longrightarrow> total_scale_of ss = Fin (sum_list ss)"
  using foldl_exact_sums[of round64 0 ss] by (simp add: total_scale_of_def py_add_def)

subsection \<open>Evaluation of the examples\<close>

lemmas example_defs =
  inert_module_def example_attention_def example_prediction_def example_provider_def
  example_world_def example_config_def example_new_kernel_def example_kernel_def
  example_tape_def example_frame_def

lemmas rounding_defs =
  rounding_world_def rounding_kernel_one_def rounding_kernel_three_def float32_nine_tenths_def

lemma float32_nine_tenths_nearest: "round32 (9 / 10) = Fin float32_nine_tenths"
  by (simp add: round_defs float32_nine_tenths_def)

lemma example_configure:
  "configure example_world example_new_kernel example_config = Inr example_kernel"
  by (simp add: example_defs configure_def Let_def set_default_input_def
        set_input_attention_provider_def set_state_prediction_provider_def
        recompute_trainable_weights_def initial_state_is_trainable_def
        default_input_is_trainable_def)

subsection \<open>Configuration and providers\<close>

text \<open>
  Claim C9. Configuration is one-shot: on a kernel on which \<^verbatim>\<open>configure\<close> has succeeded,
  every further \<^verbatim>\<open>configure\<close> fails with an assertion error.
\<close>

theorem configure_is_one_shot:
  fixes w w' :: "('e, 'd) world"
  assumes "configure w k config = Inr k'"
  shows "configure w' k' config' = Inl AssertionError"
proof -
  from assms obtain k4 where "recompute_trainable_weights w k4 = Inr k'"
    by (auto simp: configure_def Let_def and_then_eq_Inr)
  then have "k_config k' \<noteq> None"
    using recompute_trainable_weights_config by metis
  then obtain c where "k_config k' = Some c"
    by auto
  then show ?thesis
    by (simp add: configure_def)
qed

theorem configure_is_one_shot_witness:
  "configure example_world example_new_kernel example_config = Inr example_kernel \<and>
   configure example_world example_kernel example_config = Inl AssertionError"
  using configure_is_one_shot
          [OF example_configure, where w' = example_world and config' = example_config]
    example_configure
  by simp

lemma set_state_prediction_provider_second:
  "k_state_prediction_provider k = Some m \<Longrightarrow> set_state_prediction_provider k m' = Inl AssertionError"
  by (simp add: set_state_prediction_provider_def)

text \<open>
  Claim C7. Assigning a state prediction provider to a kernel that has one is an
  assertion error; assigning an input attention provider to a kernel that has one is
  not: the setter of \<^verbatim>\<open>input_attention_provider\<close> replaces the provider. On the
  configured example kernel, whose attention provider is module 0 and whose state
  prediction provider is module 1:
\<close>

theorem input_attention_provider_is_replaced:
  "k_input_attention_provider example_kernel = Some 0 \<and>
   set_input_attention_provider example_kernel 4 =
     example_kernel\<lparr>k_input_attention_provider := Some 4\<rparr> \<and>
   k_state_prediction_provider example_kernel = Some 1 \<and>
   set_state_prediction_provider example_kernel 5 = Inl AssertionError"
  by (simp add: example_kernel_def set_input_attention_provider_def
        set_state_prediction_provider_def)

subsection \<open>The combined loss\<close>

lemma contributions_Nil [simp]: "contributions w p c [] = []"
  by (simp add: contributions_def map_filter_simps)

lemma contributions_Cons:
  "contributions w p c (m # ms) =
     (case module_get_loss (module_of w m) p c of
        Some l \<Rightarrow> if loss_scale (module_of w m) > 0
                  then (loss_scale (module_of w m), l) # contributions w p c ms
                  else contributions w p c ms
      | None \<Rightarrow> contributions w p c ms)"
  by (simp add: contributions_def map_filter_simps split: option.splits)

lemma module_losses_contributions:
  "module_losses w p c ms (losses, tot) =
     (losses @ map (\<lambda>(s, l). fl_scale s l) (contributions w p c ms),
      foldl py_add tot (map Fin (map fst (contributions w p c ms))))"
proof (induction ms arbitrary: losses tot)
  case Nil
  then show ?case by simp
next
  case (Cons m ms)
  then show ?case
    by (simp add: contributions_Cons split: option.splits)
qed

lemma contributions_scale_pos: "(s, l) \<in> set (contributions w p c ms) \<Longrightarrow> 0 < s"
  by (induction ms) (auto simp: contributions_Cons split: option.splits if_splits)

lemma sum_list_pos_real:
  "xs \<noteq> [] \<Longrightarrow> (\<And>x. x \<in> set xs \<Longrightarrow> (0::real) < x) \<Longrightarrow> 0 < sum_list xs"
  by (induction xs) (auto intro: add_pos_nonneg sum_list_nonneg less_imp_le)

lemma add_n_scalar_single: "length xs = 1 \<Longrightarrow> xs ! 0 = add_n_scalar xs"
  by (cases xs) auto

text \<open>
  \<^verbatim>\<open>get_loss\<close> in terms of the contributions: without any it returns \<^verbatim>\<open>None\<close>; with
  some it asserts that the total scale is positive and returns their weighted average.
\<close>

lemma get_loss_eq:
  assumes "k_config k \<noteq> None" and "current_state p \<noteq> None"
  shows "get_loss w k p c =
           (if contributions w p c (k_modules k) = [] then Inr None
            else if fl_positive (total_scale_of (map fst (contributions w p c (k_modules k))))
            then Inr (weighted_average (contributions w p c (k_modules k)))
            else Inl AssertionError)"
proof (cases "contributions w p c (k_modules k) = []")
  case True
  with assms show ?thesis
    by (simp add: get_loss_def module_losses_contributions)
next
  case False
  let ?cs = "contributions w p c (k_modules k)"
  let ?losses = "map (\<lambda>(s, l). fl_scale s l) ?cs"
  from False have ne: "?losses \<noteq> []" by simp
  have one: "length ?losses = 1 \<Longrightarrow> ?losses ! 0 = add_n_scalar ?losses"
    by (rule add_n_scalar_single)
  show ?thesis
  proof (cases "fl_positive (total_scale_of (map fst ?cs))")
    case True
    with assms False ne one show ?thesis
      by (simp add: get_loss_def module_losses_contributions weighted_average_def
            total_scale_of_def del: add_n_scalar.simps)
  next
    case neg: False
    with assms False show ?thesis
      by (simp add: get_loss_def module_losses_contributions total_scale_of_def)
  qed
qed

lemma map_scale_Fin:
  "list_all (\<lambda>(s, x). exact32 s \<and> exact32 (s * x)) rs \<Longrightarrow>
   map (\<lambda>(s, l). fl_scale s l) (map (\<lambda>(s, x). (s, Fin x)) rs) =
     map Fin (map (\<lambda>(s, x). s * x) rs)"
  by (induction rs) (auto simp: fl_scale_def fl_mul_def exact32_def)

lemma map_fst_Fin: "map fst (map (\<lambda>(s, x). (s, Fin x)) rs) = map fst rs"
  by (induction rs) auto

lemma weighted_average_exact:
  assumes "rs \<noteq> []" and "average_is_exact rs" and "0 < sum_list (map fst rs)"
  shows "weighted_average (map (\<lambda>(s, x). (s, Fin x)) rs) =
           Some (Fin (sum_list (map (\<lambda>(s, x). s * x) rs) / sum_list (map fst rs)))"
proof -
  from assms(2) have
    ex: "list_all (\<lambda>(s, x). exact32 s \<and> exact32 (s * x)) rs"
    and sums: "exact_sums round32 0 (map (\<lambda>(s, x). s * x) rs)"
    and scales: "exact_sums round64 0 (map fst rs)"
    and tot: "round32 (sum_list (map fst rs)) = Fin (sum_list (map fst rs))"
    and quot: "round32 (sum_list (map (\<lambda>(s, x). s * x) rs) / sum_list (map fst rs)) =
                 Fin (sum_list (map (\<lambda>(s, x). s * x) rs) / sum_list (map fst rs))"
    by (simp_all add: average_is_exact_def exact32_def)
  from assms(1) have ne: "map (\<lambda>(s, x). s * x) rs \<noteq> []"
    by simp
  have a: "add_n_scalar (map (\<lambda>(s, l). fl_scale s l) (map (\<lambda>(s, x). (s, Fin x)) rs)) =
          Fin (sum_list (map (\<lambda>(s, x). s * x) rs))"
    unfolding map_scale_Fin[OF ex] using ne sums by (rule add_n_scalar_exact)
  have b: "to_float32 (total_scale_of (map fst (map (\<lambda>(s, x). (s, Fin x)) rs))) =
          Fin (sum_list (map fst rs))"
    unfolding map_fst_Fin total_scale_of_exact[OF scales] using tot by simp
  from assms(1) have ne': "map (\<lambda>(s, x). (s, Fin x)) rs \<noteq> []"
    by simp
  have "weighted_average (map (\<lambda>(s, x). (s, Fin x)) rs) =
          Some (fl_div (Fin (sum_list (map (\<lambda>(s, x). s * x) rs))) (Fin (sum_list (map fst rs))))"
    unfolding weighted_average_def a b using ne' by simp
  with assms(3) quot show ?thesis
    by (simp add: fl_div_def)
qed

lemma fl_scale_cancel:
  assumes "0 < s" and "exact32 s"
    and "case l of Fin x \<Rightarrow> exact32 x \<and> exact32 (s * x) | _ \<Rightarrow> True"
  shows "fl_div (fl_scale s l) (Fin s) = l"
  using assms by (cases l) (simp_all add: fl_scale_def fl_mul_def fl_div_def exact32_def)

text \<open>
  Claim C4. On a configured kernel, for a previous frame that has its state,
  \<^verbatim>\<open>get_loss\<close> returns \<^verbatim>\<open>None\<close> when no module contributes, and otherwise the average of
  the contributing losses weighted by their scales as \<^verbatim>\<open>float32\<close> arithmetic computes it:
  every product, sum and quotient is rounded (and the assertion fails if the total
  scale is not positive). For finite losses \<open>x\<close> with scales \<open>s\<close> such that no
  operation rounds, the result is the sum of the \<open>s * x\<close> divided by the sum of the
  \<open>s\<close>. With a single contributing module of scale \<open>s\<close> and loss \<open>l\<close> the result is
  \<open>l\<close> if \<open>s\<close> is a \<^verbatim>\<open>float32\<close> and, for a finite \<open>l\<close>, the product \<open>s * l\<close> is one too.
\<close>

theorem get_loss_weighted_average:
  assumes "k_config k \<noteq> None" and "current_state p \<noteq> None"
  shows "get_loss w k p c =
           (if contributions w p c (k_modules k) = [] then Inr None
            else if fl_positive (total_scale_of (map fst (contributions w p c (k_modules k))))
            then Inr (weighted_average (contributions w p c (k_modules k)))
            else Inl AssertionError)
       \<and> (\<forall>rs. rs \<noteq> [] \<and> contributions w p c (k_modules k) = map (\<lambda>(s, x). (s, Fin x)) rs
                \<and> average_is_exact rs \<longrightarrow>
            get_loss w k p c =
              Inr (Some (Fin (sum_list (map (\<lambda>(s, x). s * x) rs) / sum_list (map fst rs)))))
       \<and> (\<forall>s l. contributions w p c (k_modules k) = [(s, l)] \<and> exact32 s \<and> exact64 s
                \<and> (case l of Fin x \<Rightarrow> exact32 x \<and> exact32 (s * x) | _ \<Rightarrow> True) \<longrightarrow>
            get_loss w k p c = Inr (Some l))
       \<and> (contributions w p c (k_modules k) = [] \<longrightarrow> get_loss w k p c = Inr None)"
proof (intro conjI allI impI)
  let ?cs = "contributions w p c (k_modules k)"
  show eq: "get_loss w k p c =
           (if ?cs = [] then Inr None
            else if fl_positive (total_scale_of (map fst ?cs))
            then Inr (weighted_average ?cs)
            else Inl AssertionError)"
    using assms by (rule get_loss_eq)
  {
    fix rs :: "(real \<times> real) list"
    assume a: "rs \<noteq> [] \<and> ?cs = map (\<lambda>(s, x). (s, Fin x)) rs \<and> average_is_exact rs"
    then have ne: "?cs \<noteq> []" and cs: "?cs = map (\<lambda>(s, x). (s, Fin x)) rs"
      and ex: "average_is_exact rs" and rs: "rs \<noteq> []"
      by simp_all
    have "\<And>s. s \<in> set (map fst rs) \<Longrightarrow> 0 < s"
    proof -
      fix s assume "s \<in> set (map fst rs)"
      then obtain x where "(s, x) \<in> set rs" by auto
      then have "(s, Fin x) \<in> set ?cs"
        unfolding cs by force
      then show "0 < s" by (rule contributions_scale_pos)
    qed
    with rs have pos: "0 < sum_list (map fst rs)"
      by (intro sum_list_pos_real) simp_all
    from ex have "exact_sums round64 0 (map fst rs)"
      by (simp add: average_is_exact_def)
    then have tot: "total_scale_of (map fst ?cs) = Fin (sum_list (map fst rs))"
      unfolding cs map_fst_Fin by (rule total_scale_of_exact)
    from weighted_average_exact[OF rs ex pos] ne pos tot
    show "get_loss w k p c =
              Inr (Some (Fin (sum_list (map (\<lambda>(s, x). s * x) rs) / sum_list (map fst rs))))"
      unfolding eq by (simp add: cs[symmetric])
  }
  {
    fix s l
    assume a: "?cs = [(s, l)] \<and> exact32 s \<and> exact64 s
                \<and> (case l of Fin x \<Rightarrow> exact32 x \<and> exact32 (s * x) | _ \<Rightarrow> True)"
    then have cs: "?cs = [(s, l)]" and s32: "exact32 s" and s64: "exact64 s"
      and l: "case l of Fin x \<Rightarrow> exact32 x \<and> exact32 (s * x) | _ \<Rightarrow> True"
      by simp_all
    have pos: "0 < s"
      using contributions_scale_pos[of s l w p c "k_modules k"] cs by simp
    from s64 have tot: "total_scale_of [s] = Fin s"
      by (simp add: total_scale_of_def exact64_def)
    from s32 have "weighted_average [(s, l)] = Some (fl_div (fl_scale s l) (Fin s))"
      by (simp add: weighted_average_def tot exact32_def)
    with fl_scale_cancel[OF pos s32 l] have "weighted_average [(s, l)] = Some l"
      by simp
    with pos tot show "get_loss w k p c = Inr (Some l)"
      unfolding eq by (simp add: cs)
  }
  {
    assume "?cs = []"
    then show "get_loss w k p c = Inr None"
      unfolding eq by simp
  }
qed

text \<open>
  Losses 2 and 6 with scales 1 and 3 combine to \<open>(1 * 2 + 3 * 6) / (1 + 3) = 5\<close>; the
  loss 2 alone, with scale 1, gives 2; without a contributing module the loss is absent.
\<close>

theorem get_loss_weighted_average_witness:
  "k_config example_kernel \<noteq> None \<and>
   contributions example_world (example_frame (Tensor [Fin 0, Fin 0, Fin 0]))
       (example_frame (Tensor [Fin 1, Fin 1, Fin 1])) (k_modules example_kernel)
     = [(1, Fin 2), (3, Fin 6)] \<and>
   average_is_exact [(1, 2), (3, 6)] \<and>
   get_loss example_world example_kernel (example_frame (Tensor [Fin 0, Fin 0, Fin 0]))
       (example_frame (Tensor [Fin 1, Fin 1, Fin 1])) =
     Inr (Some (Fin 5)) \<and>
   get_loss example_world (example_kernel\<lparr>k_modules := [0, 1, 2]\<rparr>)
       (example_frame (Tensor [Fin 0, Fin 0, Fin 0]))
       (example_frame (Tensor [Fin 1, Fin 1, Fin 1])) =
     Inr (Some (Fin 2)) \<and>
   get_loss example_world (example_kernel\<lparr>k_modules := [0, 1]\<rparr>)
       (example_frame (Tensor [Fin 0, Fin 0, Fin 0]))
       (example_frame (Tensor [Fin 1, Fin 1, Fin 1])) =
     Inr None"
proof -
  let ?p = "example_frame (Tensor [Fin 0, Fin 0, Fin 0])"
  let ?c = "example_frame (Tensor [Fin 1, Fin 1, Fin 1])"
  have c: "k_config example_kernel \<noteq> None"
    "k_config (example_kernel\<lparr>k_modules := [0, 1, 2]\<rparr>) \<noteq> None"
    "k_config (example_kernel\<lparr>k_modules := [0, 1]\<rparr>) \<noteq> None"
    by (simp_all add: example_kernel_def)
  have s: "current_state ?p \<noteq> None"
    by (simp add: example_frame_def)
  have cs: "contributions example_world ?p ?c (k_modules example_kernel) = [(1, Fin 2), (3, Fin 6)]"
    "contributions example_world ?p ?c (k_modules (example_kernel\<lparr>k_modules := [0, 1, 2]\<rparr>))
       = [(1, Fin 2)]"
    "contributions example_world ?p ?c (k_modules (example_kernel\<lparr>k_modules := [0, 1]\<rparr>)) = []"
    by (simp_all add: example_defs contributions_Cons)
  have ex: "average_is_exact [(1, 2), (3, 6)]"
    by (simp add: average_is_exact_def exact32_def round_defs)
  have ex1: "exact32 1" "exact64 1" "exact32 2" "exact32 (1 * 2)"
    by (simp_all add: exact32_def exact64_def round_defs)
  note t1 = get_loss_weighted_average [OF c(1) s, of example_world ?c]
  note t2 = get_loss_weighted_average [OF c(2) s, of example_world ?c]
  note t3 = get_loss_weighted_average [OF c(3) s, of example_world ?c]
  from t1 [THEN conjunct2, THEN conjunct1, rule_format, of "[(1, 2), (3, 6)]"] cs(1) ex
  have 1: "get_loss example_world example_kernel ?p ?c = Inr (Some (Fin 5))"
    by simp
  from t2 [THEN conjunct2, THEN conjunct2, THEN conjunct1, rule_format, of 1 "Fin 2"] cs(2) ex1
  have 2: "get_loss example_world (example_kernel\<lparr>k_modules := [0, 1, 2]\<rparr>) ?p ?c
             = Inr (Some (Fin 2))"
    by simp
  from t3 [THEN conjunct2, THEN conjunct2, THEN conjunct2] cs(3)
  have 3: "get_loss example_world (example_kernel\<lparr>k_modules := [0, 1]\<rparr>) ?p ?c = Inr None"
    by simp
  from c(1) cs(1) ex 1 2 3 show ?thesis
    by (intro conjI)
qed

text \<open>
  A single contributing module with scale 3 whose loss is the \<^verbatim>\<open>float32\<close> nearest to 0.9:
  the product is rounded, and the quotient by 3 is the next \<^verbatim>\<open>float32\<close> below the loss,
  not the loss.
\<close>

theorem get_loss_single_contributor_counterexample:
  "contributions rounding_world (example_frame (Tensor [Fin 0, Fin 0, Fin 0]))
       (example_frame (Tensor [Fin 1, Fin 1, Fin 1])) (k_modules rounding_kernel_one)
     = [(3, Fin float32_nine_tenths)] \<and>
   get_loss rounding_world rounding_kernel_one (example_frame (Tensor [Fin 0, Fin 0, Fin 0]))
       (example_frame (Tensor [Fin 1, Fin 1, Fin 1])) =
     Inr (Some (Fin (15099493 / 16777216))) \<and>
   get_loss rounding_world rounding_kernel_one (example_frame (Tensor [Fin 0, Fin 0, Fin 0]))
       (example_frame (Tensor [Fin 1, Fin 1, Fin 1])) \<noteq>
     Inr (Some (Fin float32_nine_tenths))"
proof -
  let ?p = "example_frame (Tensor [Fin 0, Fin 0, Fin 0])"
  let ?c = "example_frame (Tensor [Fin 1, Fin 1, Fin 1])"
  have cs: "contributions rounding_world ?p ?c (k_modules rounding_kernel_one)
              = [(3, Fin float32_nine_tenths)]"
    by (simp add: example_defs rounding_defs contributions_Cons)
  have g: "get_loss rounding_world rounding_kernel_one ?p ?c =
             Inr (Some (Fin (15099493 / 16777216)))"
    by (simp add: get_loss_def example_defs rounding_defs fl_scale_def fl_mul_def fl_div_def
          py_add_def round_defs)
  have "Fin (15099493 / 16777216) \<noteq> Fin float32_nine_tenths"
    by (simp add: float32_nine_tenths_def)
  with cs g show ?thesis
    by simp
qed

subsection \<open>The predicted state\<close>

lemma clip_entry_in_range: "\<not> is_nan x \<Longrightarrow> finite_in_range (clip_entry (- 1000000) 1000000 x)"
  by (cases x) (simp_all add: finite_in_range_def)

lemma any_nan_iff: "any_nan t \<longleftrightarrow> (\<exists>x\<in>set t. is_nan x)"
  by (simp add: any_nan_def list_ex_iff)

lemma clip_by_value_in_range:
  assumes "\<not> any_nan t" and "x \<in> set (clip_by_value t (- 1000000) 1000000)"
  shows "finite_in_range x"
  using assms by (auto simp: clip_by_value_def any_nan_iff intro: clip_entry_in_range)

text \<open>
  Claim C5. A frame that \<^verbatim>\<open>predict_state\<close> returns has a current state without NaN whose
  entries all lie between \<open>-1e6\<close> and \<open>1e6\<close>; where the assertions on the kernel and the
  frame hold and the provider predicts \<open>t\<close>, a NaN in \<open>t\<close> is an assertion error, and
  otherwise the state recorded is \<open>t\<close> clipped.
\<close>

theorem predict_state_no_nan_and_clipped:
  "(predict_state w k frame = Inr frame' \<longrightarrow>
      (\<exists>s. current_state frame' = Some s \<and> (\<forall>x\<in>set s. \<not> is_nan x \<and> finite_in_range x)))
   \<and> (k_config k \<noteq> None \<and> input_tensors frame = Attr (Some its)
        \<and> current_state frame = None
        \<and> k_state_prediction_provider k = Some m
        \<and> module_predict_state (module_of w m) frame = Some t \<longrightarrow>
      predict_state w k frame =
        (if any_nan t then Inl AssertionError
         else Inr (frame\<lparr>current_state := Some (clip_by_value t (- 1000000) 1000000)\<rparr>)))"
proof (intro conjI impI)
  assume ok: "predict_state w k frame = Inr frame'"
  then obtain m t where "module_predict_state (module_of w m) frame = Some t"
    and nn: "\<not> any_nan t"
    and f': "frame' = frame\<lparr>current_state := Some (clip_by_value t (- 1000000) 1000000)\<rparr>"
    by (auto simp: predict_state_def and_then_eq_Inr split: option.splits)
  have "\<forall>x\<in>set (clip_by_value t (- 1000000) 1000000). \<not> is_nan x \<and> finite_in_range x"
  proof
    fix x assume "x \<in> set (clip_by_value t (- 1000000) 1000000)"
    with nn have "finite_in_range x" by (rule clip_by_value_in_range)
    then show "\<not> is_nan x \<and> finite_in_range x"
      by (cases x) (simp_all add: finite_in_range_def)
  qed
  with f' show "\<exists>s. current_state frame' = Some s \<and> (\<forall>x\<in>set s. \<not> is_nan x \<and> finite_in_range x)"
    by simp
next
  assume "k_config k \<noteq> None \<and> input_tensors frame = Attr (Some its)
        \<and> current_state frame = None
        \<and> k_state_prediction_provider k = Some m
        \<and> module_predict_state (module_of w m) frame = Some t"
  then show "predict_state w k frame =
        (if any_nan t then Inl AssertionError
         else Inr (frame\<lparr>current_state := Some (clip_by_value t (- 1000000) 1000000)\<rparr>))"
    by (simp add: predict_state_def get_input_tensors_def)
qed

text \<open>
  The prediction \<open>[2e6, -inf, 0.5]\<close> is recorded as \<open>[1e6, -1e6, 0.5]\<close>.
\<close>

theorem predict_state_no_nan_and_clipped_witness:
  "predict_state example_world example_kernel
     ((example_frame (Tensor [Fin 0, Fin 0, Fin 0]))\<lparr>current_state := None\<rparr>) =
   Inr ((example_frame (Tensor [Fin 0, Fin 0, Fin 0]))
          \<lparr>current_state := Some [Fin 1000000, Fin (- 1000000), Fin (1/2)]\<rparr>)
   \<and> finite_in_range (Fin 1000000) \<and> finite_in_range (Fin (- 1000000))
   \<and> finite_in_range (Fin (1/2))"
  using predict_state_no_nan_and_clipped
          [of example_world example_kernel
              "(example_frame (Tensor [Fin 0, Fin 0, Fin 0]))\<lparr>current_state := None\<rparr>"
              "(example_frame (Tensor [Fin 0, Fin 0, Fin 0]))
                 \<lparr>current_state := Some [Fin 1000000, Fin (- 1000000), Fin (1/2)]\<rparr>"
              "[Tensor [Fin 0, Fin 0]]" 1 "[Fin 2000000, NInf, Fin (1/2)]"]
  by (simp add: example_defs any_nan_def clip_by_value_def)

subsection \<open>The gradient of the current state\<close>

lemma provided_gradients_Nil [simp]: "provided_gradients w e f [] = []"
  by (simp add: provided_gradients_def map_filter_simps)

lemma provided_gradients_Cons:
  "provided_gradients w e f (m # ms) =
     (if is_GradientProvider (module_of w m) then
        (case get_current_state_gradient (module_of w m) e f of
           Some g \<Rightarrow> g # provided_gradients w e f ms
         | None \<Rightarrow> provided_gradients w e f ms)
      else provided_gradients w e f ms)"
  by (simp add: provided_gradients_def map_filter_simps split: option.splits)

lemma collect_state_gradients_eq:
  "collect_state_gradients w e f ms acc = Inr gs \<Longrightarrow> gs = acc @ provided_gradients w e f ms"
proof (induction ms arbitrary: acc)
  case Nil
  then show ?case by simp
next
  case (Cons m ms)
  show ?case
  proof (cases "is_GradientProvider (module_of w m)")
    case False
    with Cons show ?thesis
      by (simp add: provided_gradients_Cons)
  next
    case True
    show ?thesis
    proof (cases "get_current_state_gradient (module_of w m) e f")
      case None
      with True Cons show ?thesis
        by (simp add: provided_gradients_Cons)
    next
      case (Some g)
      with True Cons.prems have "collect_state_gradients w e f ms (acc @ [g]) = Inr gs"
        by (simp add: and_then_eq_Inr)
      from Cons.IH[OF this] True Some show ?thesis
        by (simp add: provided_gradients_Cons)
    qed
  qed
qed

lemma add_n_entries:
  "add_n gs = Inr tot \<Longrightarrow>
     length tot = length (hd gs) \<and>
     (\<forall>i<length tot. tot ! i = add_n_scalar (map (\<lambda>g. g ! i) gs))"
proof (induction gs arbitrary: tot rule: add_n.induct)
  case 1
  then show ?case by simp
next
  case (2 t)
  then show ?case by simp
next
  case (3 t u us)
  from "3.prems" have len: "length t = length u"
    and r: "add_n (map2 fl_add t u # us) = Inr tot"
    by (auto split: if_splits)
  from "3.IH"[OF len r] have l: "length tot = length (map2 fl_add t u)"
    and ih: "\<forall>i<length tot. tot ! i = add_n_scalar (map (\<lambda>g. g ! i) (map2 fl_add t u # us))"
    by simp_all
  from l len have lt: "length tot = length t" by simp
  have "\<forall>i<length tot. tot ! i = add_n_scalar (map (\<lambda>g. g ! i) (t # u # us))"
    using ih lt len by simp
  with lt show ?case by simp
qed

lemma add_n_mean:
  assumes "add_n gs = Inr tot"
  shows "tensor_div tot (Fin (real (length gs))) = arithmetic_mean gs"
proof -
  from add_n_entries[OF assms] have len: "length tot = length (hd gs)"
    and ent: "\<And>i. i < length tot \<Longrightarrow> tot ! i = add_n_scalar (map (\<lambda>g. g ! i) gs)"
    by simp_all
  show ?thesis
    by (rule nth_equalityI) (simp_all add: tensor_div_def arithmetic_mean_def len ent)
qed

lemma exact_multiples_le:
  "exact_multiples n a \<Longrightarrow> 1 \<le> k \<Longrightarrow> k \<le> n \<Longrightarrow> exact32 (real k * a)"
proof (induction n)
  case 0
  then show ?case by simp
next
  case (Suc n)
  show ?case
  proof (cases "k = Suc n")
    case True
    with Suc.prems(1) show ?thesis by simp
  next
    case False
    with Suc.prems have "exact_multiples n a" and "k \<le> n" by simp_all
    with Suc.prems(2) show ?thesis by (intro Suc.IH)
  qed
qed

lemma exact_sums_multiples:
  "exact_multiples (m + n) a \<Longrightarrow> exact_sums round32 (real m * a) (replicate n a)"
proof (induction n arbitrary: m)
  case 0
  then show ?case by simp
next
  case (Suc n)
  from Suc.prems have "exact32 (real (Suc m) * a)"
    by (rule exact_multiples_le) simp_all
  then have h: "round32 (real m * a + a) = Fin (real m * a + a)"
    by (simp add: exact32_def algebra_simps)
  from Suc.prems have "exact_multiples (Suc m + n) a"
    by simp
  from Suc.IH[OF this] have t: "exact_sums round32 (real m * a + a) (replicate n a)"
    by (simp add: algebra_simps)
  from h t show ?case
    by simp
qed

lemma mean_of_equal_entries:
  assumes "multiples_exact (Suc n) x" and "exact32 (real (Suc n))"
  shows "fl_div (add_n_scalar (replicate (Suc n) x)) (round32 (real (Suc n))) = x"
proof (cases x)
  case (Fin a)
  from assms(1) have all: "exact_multiples (Suc n) a"
    by (simp add: multiples_exact_def Fin)
  then have "exact32 (real 1 * a)"
    by (rule exact_multiples_le) simp_all
  then have one: "round32 a = Fin a"
    by (simp add: exact32_def)
  from all have "exact_multiples (0 + Suc n) a"
    by simp
  from exact_sums_multiples[OF this] have "exact_sums round32 0 (replicate (Suc n) a)"
    by simp
  moreover have "replicate (Suc n) a \<noteq> []" by simp
  ultimately have "add_n_scalar (map Fin (replicate (Suc n) a)) = Fin (sum_list (replicate (Suc n) a))"
    by (intro add_n_scalar_exact)
  then have s: "add_n_scalar (replicate (Suc n) (Fin a)) = Fin (real (Suc n) * a)"
    by (simp add: sum_list_replicate del: replicate.simps add_n_scalar.simps of_nat_Suc)
  from assms(2) have r: "round32 (real (Suc n)) = Fin (real (Suc n))"
    by (simp add: exact32_def)
  show ?thesis
    unfolding Fin s r using one by (simp add: fl_div_def del: of_nat_Suc)
next
  case PInf
  have "add_n_scalar (replicate (Suc n) PInf) = PInf"
    by (induction n) (simp_all add: fl_add_def)
  with assms(2) show ?thesis
    by (simp add: PInf exact32_def fl_div_def del: replicate.simps of_nat_Suc)
next
  case NInf
  have "add_n_scalar (replicate (Suc n) NInf) = NInf"
    by (induction n) (simp_all add: fl_add_def)
  with assms(2) show ?thesis
    by (simp add: NInf exact32_def fl_div_def del: replicate.simps of_nat_Suc)
next
  case NaN
  have "add_n_scalar (replicate (Suc n) NaN) = NaN"
    by (induction n) (simp_all add: fl_add_def)
  then show ?thesis
    by (simp add: NaN fl_div_def del: replicate.simps of_nat_Suc)
qed

lemma arithmetic_mean_constant:
  assumes "gs \<noteq> []" and "\<forall>g\<in>set gs. g = c"
    and "exact32 (real (length gs))" and "list_all (multiples_exact (length gs)) c"
  shows "arithmetic_mean gs = c"
proof -
  from assms(1) obtain n where n: "length gs = Suc n"
    by (cases gs) auto
  from assms(2) have gs: "gs = replicate (Suc n) c"
    using replicate_length_same[of gs c] n by simp
  have hd: "hd gs = c"
    using assms(1,2) by (cases gs) auto
  have col: "\<And>i. map (\<lambda>g. g ! i) gs = replicate (Suc n) (c ! i)"
    by (subst gs) (simp del: replicate.simps)
  have ent: "\<And>i. i < length c \<Longrightarrow>
      fl_div (add_n_scalar (replicate (Suc n) (c ! i))) (round32 (real (Suc n))) = c ! i"
  proof -
    fix i assume "i < length c"
    with assms(4) have "multiples_exact (Suc n) (c ! i)"
      by (simp add: list_all_length n)
    then show "fl_div (add_n_scalar (replicate (Suc n) (c ! i))) (round32 (real (Suc n))) = c ! i"
      using assms(3) unfolding n by (rule mean_of_equal_entries)
  qed
  show ?thesis
    by (intro nth_equalityI)
      (simp_all add: arithmetic_mean_def hd n col ent del: replicate.simps of_nat_Suc)
qed

lemma arithmetic_mean_exact:
  assumes "i < length (hd gs)" and "gs \<noteq> []"
    and "map (\<lambda>g. g ! i) gs = map Fin xs" and "exact_sums round32 0 xs"
    and "exact32 (real (length gs))" and "exact32 (sum_list xs / real (length gs))"
  shows "arithmetic_mean gs ! i = Fin (sum_list xs / real (length gs))"
proof -
  from assms(2,3) have xs: "xs \<noteq> []"
    by (cases gs) auto
  from assms(2) have pos: "real (length gs) \<noteq> 0"
    by simp
  from assms(1) have "arithmetic_mean gs ! i =
      fl_div (add_n_scalar (map (\<lambda>g. g ! i) gs)) (round32 (real (length gs)))"
    by (simp add: arithmetic_mean_def)
  also have "\<dots> = fl_div (Fin (sum_list xs)) (Fin (real (length gs)))"
    using assms(5) by (simp only: assms(3) add_n_scalar_exact[OF xs assms(4)] exact32_def)
  also have "\<dots> = Fin (sum_list xs / real (length gs))"
    using pos assms(6) by (simp add: fl_div_def exact32_def)
  finally show ?thesis .
qed

text \<open>
  Claim C6. The last part of \<^verbatim>\<open>step\<close> (\<^verbatim>\<open>kernel.py\<close>, lines 110 to 121), when the
  gradient providers returned \<open>N \<ge> 1\<close> gradients of the current state, records their
  arithmetic mean as \<^verbatim>\<open>float32\<close> arithmetic computes it: entry by entry, the sum divided
  by \<open>N\<close>, every addition and the division rounded; when they returned none, the frame
  is left as it is. An entry whose sums and whose mean are \<^verbatim>\<open>float32\<close> numbers is recorded
  as the exact mean. If all \<open>N\<close> gradients are the same tensor \<open>c\<close>, the tensor recorded
  is \<open>c\<close> provided the multiples \<open>1 * a\<close>, ..., \<open>N * a\<close> of every finite entry \<open>a\<close>
  of \<open>c\<close> are \<^verbatim>\<open>float32\<close> numbers.
\<close>

theorem combine_state_gradients_mean:
  assumes "combine_state_gradients w k environment frame = Inr frame'"
  shows "let gs = provided_gradients w environment frame (k_modules k); n = length gs
         in (gs = [] \<longrightarrow> frame' = frame) \<and>
            (gs \<noteq> [] \<longrightarrow>
               frame' = frame\<lparr>current_state_gradient := Attr (arithmetic_mean gs)\<rparr> \<and>
               (\<forall>i xs. i < length (hd gs) \<and> map (\<lambda>g. g ! i) gs = map Fin xs \<and>
                   exact_sums round32 0 xs \<and> exact32 (real n) \<and>
                   exact32 (sum_list xs / real n) \<longrightarrow>
                   arithmetic_mean gs ! i = Fin (sum_list xs / real n)) \<and>
               (\<forall>c. (\<forall>g\<in>set gs. g = c) \<and> exact32 (real n) \<and>
                   list_all (multiples_exact n) c \<longrightarrow>
                   current_state_gradient frame' = Attr c))"
proof -
  let ?gs = "provided_gradients w environment frame (k_modules k)"
  from assms obtain gs where col: "collect_state_gradients w environment frame (k_modules k) [] = Inr gs"
    and r: "(if gs \<noteq> [] then
       and_then (add_n gs) (\<lambda>total.
       Inr (frame\<lparr>current_state_gradient :=
                    Attr (tensor_div total (Fin (real (length gs))))\<rparr>))
     else Inr frame) = Inr frame'"
    by (auto simp: combine_state_gradients_def and_then_eq_Inr)
  from collect_state_gradients_eq[OF col] have gs: "?gs = gs"
    by simp
  show ?thesis
  proof (cases "gs = []")
    case True
    with r gs show ?thesis by (simp add: Let_def)
  next
    case False
    with r obtain tot where tot: "add_n gs = Inr tot"
      and f': "frame' = frame\<lparr>current_state_gradient :=
                                Attr (tensor_div tot (Fin (real (length gs))))\<rparr>"
      by (auto simp: and_then_eq_Inr)
    from f' have m: "frame' = frame\<lparr>current_state_gradient := Attr (arithmetic_mean gs)\<rparr>"
      by (simp add: add_n_mean[OF tot])
    have ex: "\<forall>i xs. i < length (hd gs) \<and> map (\<lambda>g. g ! i) gs = map Fin xs \<and>
                   exact_sums round32 0 xs \<and> exact32 (real (length gs)) \<and>
                   exact32 (sum_list xs / real (length gs)) \<longrightarrow>
                   arithmetic_mean gs ! i = Fin (sum_list xs / real (length gs))"
      using False by (auto intro: arithmetic_mean_exact)
    have cst: "\<forall>c. (\<forall>g\<in>set gs. g = c) \<and> exact32 (real (length gs)) \<and>
                   list_all (multiples_exact (length gs)) c \<longrightarrow>
                   current_state_gradient frame' = Attr c"
      using False m by (auto simp: arithmetic_mean_constant)
    from False m ex cst show ?thesis
      unfolding gs Let_def by (intro conjI impI) simp_all
  qed
qed

text \<open>
  The gradients \<open>[1, 2, 3]\<close> and \<open>[3, 4, 5]\<close> are recorded as \<open>[2, 3, 4]\<close>, and the
  gradient \<open>[1, 2, 3]\<close> alone as itself.
\<close>

theorem combine_state_gradients_mean_witness:
  "provided_gradients example_world () (example_frame (Tensor [Fin 0, Fin 0, Fin 0]))
     (k_modules example_kernel) = [[Fin 1, Fin 2, Fin 3], [Fin 3, Fin 4, Fin 5]] \<and>
   combine_state_gradients example_world example_kernel ()
     (example_frame (Tensor [Fin 0, Fin 0, Fin 0])) =
     Inr ((example_frame (Tensor [Fin 0, Fin 0, Fin 0]))
            \<lparr>current_state_gradient := Attr [Fin 2, Fin 3, Fin 4]\<rparr>) \<and>
   arithmetic_mean [[Fin 1, Fin 2, Fin 3], [Fin 3, Fin 4, Fin 5]] = [Fin 2, Fin 3, Fin 4] \<and>
   exact_sums round32 0 [1, 3] \<and> exact32 (real (Suc (Suc 0))) \<and> exact32 ((1 + 3) / 2) \<and>
   combine_state_gradients example_world (example_kernel\<lparr>k_modules := [0, 1, 2]\<rparr>) ()
     (example_frame (Tensor [Fin 0, Fin 0, Fin 0])) =
     Inr ((example_frame (Tensor [Fin 0, Fin 0, Fin 0]))
            \<lparr>current_state_gradient := Attr [Fin 1, Fin 2, Fin 3]\<rparr>) \<and>
   list_all (multiples_exact (Suc 0)) [Fin 1, Fin 2, Fin 3]"
proof -
  let ?f = "example_frame (Tensor [Fin 0, Fin 0, Fin 0])"
  have p: "provided_gradients example_world () ?f (k_modules example_kernel) =
             [[Fin 1, Fin 2, Fin 3], [Fin 3, Fin 4, Fin 5]]"
    by (simp add: example_defs provided_gradients_Cons)
  have c: "combine_state_gradients example_world example_kernel () ?f =
             Inr (?f\<lparr>current_state_gradient := Attr [Fin 2, Fin 3, Fin 4]\<rparr>)"
    by (simp add: combine_state_gradients_def example_defs any_nan_def tensor_div_def
          fl_div_def round_defs)
  have e: "exact_sums round32 0 [1, 3]" "exact32 (real (Suc (Suc 0)))" "exact32 ((1 + 3) / 2)"
    by (simp_all add: exact32_def round_defs)
  have p1: "provided_gradients example_world () ?f
              (k_modules (example_kernel\<lparr>k_modules := [0, 1, 2]\<rparr>)) = [[Fin 1, Fin 2, Fin 3]]"
    by (simp add: example_defs provided_gradients_Cons)
  have c1: "combine_state_gradients example_world (example_kernel\<lparr>k_modules := [0, 1, 2]\<rparr>) () ?f
              = Inr (?f\<lparr>current_state_gradient := Attr [Fin 1, Fin 2, Fin 3]\<rparr>)"
    by (simp add: combine_state_gradients_def example_defs any_nan_def tensor_div_def
          fl_div_def round_defs)
  have m1: "list_all (multiples_exact (Suc 0)) [Fin 1, Fin 2, Fin 3]"
    by (simp add: multiples_exact_def exact32_def round_defs)
  from combine_state_gradients_mean [OF c] p
  have "?f\<lparr>current_state_gradient := Attr [Fin 2, Fin 3, Fin 4]\<rparr> =
          ?f\<lparr>current_state_gradient :=
                Attr (arithmetic_mean [[Fin 1, Fin 2, Fin 3], [Fin 3, Fin 4, Fin 5]])\<rparr>"
    by (simp add: Let_def)
  then have "current_state_gradient (?f\<lparr>current_state_gradient := Attr [Fin 2, Fin 3, Fin 4]\<rparr>) =
          current_state_gradient (?f\<lparr>current_state_gradient :=
                Attr (arithmetic_mean [[Fin 1, Fin 2, Fin 3], [Fin 3, Fin 4, Fin 5]])\<rparr>)"
    by (rule arg_cong)
  then have m: "arithmetic_mean [[Fin 1, Fin 2, Fin 3], [Fin 3, Fin 4, Fin 5]] =
                  [Fin 2, Fin 3, Fin 4]"
    by simp
  from p c m e c1 m1 show ?thesis
    by (intro conjI)
qed

text \<open>
  Three gradients whose entry is the \<^verbatim>\<open>float32\<close> nearest to 0.9: the sum of three is
  rounded, and its third is the next \<^verbatim>\<open>float32\<close> below the entry.
\<close>

theorem combine_state_gradients_counterexample:
  "provided_gradients rounding_world () (example_frame (Tensor [Fin 0, Fin 0, Fin 0]))
     (k_modules rounding_kernel_three) =
     [[Fin float32_nine_tenths], [Fin float32_nine_tenths], [Fin float32_nine_tenths]] \<and>
   combine_state_gradients rounding_world rounding_kernel_three ()
     (example_frame (Tensor [Fin 0, Fin 0, Fin 0])) =
     Inr ((example_frame (Tensor [Fin 0, Fin 0, Fin 0]))
            \<lparr>current_state_gradient := Attr [Fin (15099493 / 16777216)]\<rparr>) \<and>
   [Fin (15099493 / 16777216)] \<noteq> [Fin float32_nine_tenths]"
proof -
  let ?f = "example_frame (Tensor [Fin 0, Fin 0, Fin 0])"
  have p: "provided_gradients rounding_world () ?f (k_modules rounding_kernel_three) =
     [[Fin float32_nine_tenths], [Fin float32_nine_tenths], [Fin float32_nine_tenths]]"
    by (simp add: example_defs rounding_defs provided_gradients_Cons)
  have c: "combine_state_gradients rounding_world rounding_kernel_three () ?f =
     Inr (?f\<lparr>current_state_gradient := Attr [Fin (15099493 / 16777216)]\<rparr>)"
    by (simp add: combine_state_gradients_def example_defs rounding_defs any_nan_def
          tensor_div_def fl_div_def round_defs)
  have "[Fin (15099493 / 16777216)] \<noteq> [Fin float32_nine_tenths]"
    by (simp add: float32_nine_tenths_def)
  with p c show ?thesis
    by (intro conjI)
qed

subsection \<open>Training a frame\<close>

text \<open>
  What \<^verbatim>\<open>train\<close> does to a frame: a frame that is trained already, or has no tape, fails
  the assertion and is left as it is; an untrained frame with a tape comes out trained,
  its tape left and the field cleared, whether the body raised or not; and a
  further \<^verbatim>\<open>train\<close> of that frame fails the assertion. On the example kernel the
  combined loss 5 is recorded.
\<close>

lemma train_trained:
  "trained pf \<Longrightarrow> train w k pf cf = (pf, tape pf, Some AssertionError)"
  by (simp add: train_def)

lemma train_without_tape:
  "tape pf = None \<Longrightarrow> train w k pf cf = (pf, None, Some AssertionError)"
  by (simp add: train_def)

lemma train_finalizes:
  assumes "k_config k \<noteq> None" and "\<not> trained pf" and "tape pf = Some t"
    and "train w k pf cf = (pf', t', err)"
  shows "trained pf'" and "tape pf' = None" and "t' = Some (tape_exit t)"
    and "\<not> recording (tape_exit t)"
  using assms by (auto simp: train_def tape_exit_def split: prod.splits)

lemma train_again:
  assumes "k_config k \<noteq> None" and "\<not> trained pf" and "tape pf = Some t"
    and "train w k pf cf = (pf', t', err)"
  shows "train w2 k2 pf' cf2 = (pf', None, Some AssertionError)"
proof -
  from train_finalizes(1,2)[OF assms] have "trained pf'" "tape pf' = None" .
  then show ?thesis
    by (simp add: train_trained)
qed

lemma example_get_loss:
  "get_loss example_world example_kernel (example_frame (Tensor [Fin 0, Fin 0, Fin 0]))
     (example_frame (Tensor [Fin 1000000, Fin (- 1000000), Fin (1/2)])) = Inr (Some (Fin 5))"
  by (simp add: get_loss_def example_defs fl_scale_def fl_mul_def fl_div_def py_add_def
        fl_add_def round_defs)

lemma example_train:
  "train example_world example_kernel (example_frame (Tensor [Fin 0, Fin 0, Fin 0]))
     (example_frame (Tensor [Fin 1000000, Fin (- 1000000), Fin (1/2)])) =
     ((example_frame (Tensor [Fin 0, Fin 0, Fin 0]))
        \<lparr>tape := None, combined_loss := Some (Fin 5), trained := True\<rparr>,
      Some (example_tape\<lparr>recording := False\<rparr>), None)"
proof -
  have w: "get_trainable_weights example_kernel = Inr [Variable ''w'' [Fin 0]]"
    by (simp add: get_trainable_weights_def example_kernel_def)
  have g: "tape_gradient example_world example_tape (Fin 5) [Variable ''w'' [Fin 0]] =
             Inr [Some [Fin (1/2)]]"
    by (simp add: example_world_def)
  have c: "clip_by_global_norm example_world [Some [Fin (1/2)]] 1 = Inr [Some [Fin (1/2)]]"
    by (simp add: example_world_def)
  have a: "apply_gradients example_world [(Some [Fin (1/2)], Variable ''w'' [Fin 0])] = None"
    by (simp add: example_world_def)
  have r: "train_retroactive_losses example_world pf cf (k_modules example_kernel) = None"
    for pf cf
    by (simp add: example_defs)
  have b: "train_body example_world example_kernel example_tape
             (example_frame (Tensor [Fin 0, Fin 0, Fin 0]))
             (example_frame (Tensor [Fin 1000000, Fin (- 1000000), Fin (1/2)])) =
             ((example_frame (Tensor [Fin 0, Fin 0, Fin 0]))\<lparr>combined_loss := Some (Fin 5)\<rparr>,
              None)"
    by (simp add: train_body_def example_get_loss w g c a r any_nan_def Let_def)
  have f: "k_config example_kernel \<noteq> None"
    "\<not> trained (example_frame (Tensor [Fin 0, Fin 0, Fin 0]))"
    "tape (example_frame (Tensor [Fin 0, Fin 0, Fin 0])) = Some example_tape"
    by (simp_all add: example_kernel_def example_frame_def)
  have x: "tape_exit example_tape = example_tape\<lparr>recording := False\<rparr>"
    by (simp add: tape_exit_def)
  from f show ?thesis
    by (simp add: train_def b x)
qed

text \<open>The same call with an optimizer that raises: the frame is finalized all the same.\<close>

lemma example_train_raising:
  "train (example_world\<lparr>apply_gradients := (\<lambda>gvs. Some ValueError)\<rparr>) example_kernel
     (example_frame (Tensor [Fin 0, Fin 0, Fin 0]))
     (example_frame (Tensor [Fin 1000000, Fin (- 1000000), Fin (1/2)])) =
     ((example_frame (Tensor [Fin 0, Fin 0, Fin 0]))\<lparr>tape := None, trained := True\<rparr>,
      Some (example_tape\<lparr>recording := False\<rparr>), Some ValueError)"
proof -
  let ?w = "example_world\<lparr>apply_gradients := (\<lambda>gvs. Some ValueError)\<rparr>"
  have l: "get_loss ?w example_kernel (example_frame (Tensor [Fin 0, Fin 0, Fin 0]))
     (example_frame (Tensor [Fin 1000000, Fin (- 1000000), Fin (1/2)])) = Inr (Some (Fin 5))"
    by (simp add: get_loss_def example_defs fl_scale_def fl_mul_def fl_div_def py_add_def
          fl_add_def round_defs)
  have w: "get_trainable_weights example_kernel = Inr [Variable ''w'' [Fin 0]]"
    by (simp add: get_trainable_weights_def example_kernel_def)
  have g: "tape_gradient example_world example_tape (Fin 5) [Variable ''w'' [Fin 0]] =
             Inr [Some [Fin (1/2)]]"
    by (simp add: example_world_def)
  have c: "clip_by_global_norm example_world [Some [Fin (1/2)]] 1 = Inr [Some [Fin (1/2)]]"
    by (simp add: example_world_def)
  have b: "train_body ?w example_kernel example_tape
             (example_frame (Tensor [Fin 0, Fin 0, Fin 0]))
             (example_frame (Tensor [Fin 1000000, Fin (- 1000000), Fin (1/2)])) =
             (example_frame (Tensor [Fin 0, Fin 0, Fin 0]), Some ValueError)"
    by (simp add: train_body_def l w g c any_nan_def Let_def)
  have f: "k_config example_kernel \<noteq> None"
    "\<not> trained (example_frame (Tensor [Fin 0, Fin 0, Fin 0]))"
    "tape (example_frame (Tensor [Fin 0, Fin 0, Fin 0])) = Some example_tape"
    by (simp_all add: example_kernel_def example_frame_def)
  have x: "tape_exit example_tape = example_tape\<lparr>recording := False\<rparr>"
    by (simp add: tape_exit_def)
  from f show ?thesis
    by (simp add: train_def b x)
qed

subsection \<open>Stepping\<close>

lemma StateFrame_init_without_stream_id: "StateFrame_init None ps t = Inl TypeError"
  by (simp add: StateFrame_init_def)

lemma and_then_eq_Inl: "(\<And>x. \<exists>e. g x = Inl e) \<Longrightarrow> \<exists>e. and_then m g = Inl e"
  by (cases m) (simp_all add: and_then_def)

lemma new_frame_raises: "\<exists>e. new_frame w k previous_frame = Inl e"
  by (cases "py_assert (k_config k \<noteq> None)"; cases "get_previous_state k previous_frame";
      cases "new_gradient_tape k")
    (simp_all add: new_frame_def StateFrame_init_without_stream_id)

lemma new_frame_type_error:
  assumes "k_config k \<noteq> None" and "get_previous_state k previous_frame = Inr ps"
    and "k_trainable_weights k \<noteq> None"
  shows "new_frame w k previous_frame = Inl TypeError"
  using assms
  by (auto simp: new_frame_def new_gradient_tape_def get_trainable_weights_def
        StateFrame_init_without_stream_id Let_def)

lemma step_never_returns: "\<exists>e. step w k environment previous_frame = Inl e"
proof -
  from new_frame_raises obtain e where "new_frame w k previous_frame = Inl e"
    by blast
  then show ?thesis
    by (simp add: step_def)
qed

lemma gather_inputs_new_frame:
  "input_tensors frame = Missing \<Longrightarrow> k_config k \<noteq> None \<Longrightarrow> current_state frame = None \<Longrightarrow>
     gather_inputs w k environment frame = Inl AttributeError"
  by (auto simp: gather_inputs_def get_input_tensors_def)

text \<open>
  Claim C1. \<^verbatim>\<open>step\<close> never returns a frame. It begins with \<^verbatim>\<open>new_frame\<close>, which calls
  the constructor of \<^verbatim>\<open>StateFrame\<close> without the \<^verbatim>\<open>stream_id\<close> that the dataclass requires:
  a call of \<^verbatim>\<open>step\<close> that does not fail an assertion before raises \<^verbatim>\<open>TypeError\<close> there.
  So no frame is produced by \<^verbatim>\<open>step\<close>, and \<^verbatim>\<open>step\<close> trains none: \<^verbatim>\<open>train\<close> is not
  reached. On the configured example kernel, without and with a previous frame:
\<close>

theorem step_raises_type_error:
  "(\<exists>e. step w k environment previous_frame = Inl e) \<and>
   new_frame example_world example_kernel None = Inl TypeError \<and>
   step example_world example_kernel () None = Inl TypeError \<and>
   step example_world example_kernel ()
     (Some (example_frame (Tensor [Fin 0, Fin 0, Fin 0]))) = Inl TypeError"
proof -
  have c: "k_config example_kernel \<noteq> None" "k_trainable_weights example_kernel \<noteq> None"
    by (simp_all add: example_kernel_def)
  have p0: "get_previous_state example_kernel (None :: unit StateFrame option) =
              Inr (Tensor [Fin 0, Fin 0, Fin 0])"
    by (simp add: get_previous_state_def initial_state_def example_kernel_def)
  have p1: "get_previous_state example_kernel
              (Some (example_frame (Tensor [Fin 0, Fin 0, Fin 0]))) =
              Inr (Tensor [Fin 1000000, Fin (- 1000000), Fin (1/2)])"
    by (simp add: get_previous_state_def example_kernel_def example_frame_def)
  have n0: "new_frame example_world example_kernel None = Inl TypeError"
    by (rule new_frame_type_error [OF c(1) p0 c(2)])
  have n1: "new_frame example_world example_kernel
              (Some (example_frame (Tensor [Fin 0, Fin 0, Fin 0]))) = Inl TypeError"
    by (rule new_frame_type_error [OF c(1) p1 c(2)])
  from n0 have s0: "step example_world example_kernel () None = Inl TypeError"
    by (simp add: step_def)
  from n1 have s1: "step example_world example_kernel ()
     (Some (example_frame (Tensor [Fin 0, Fin 0, Fin 0]))) = Inl TypeError"
    by (simp add: step_def)
  from step_never_returns n0 s0 s1 show ?thesis
    by (intro conjI)
qed

end
